theory Spec2Isabelle
  imports Main "HOL-Library.Sublist" "HOL-Library.Multiset" "HOL-Library.Word"
begin

section \<open>JavaScript strings\<close>

text \<open>
  A JavaScript string is modelled as a \<^typ>\<open>string\<close>; each character stands for the code
  unit with the same number (U+0000 to U+00FF). The white space of \<^verbatim>\<open>String.prototype.trim\<close>
  and of the regular expression classes \<^verbatim>\<open>\s\<close> and \<^verbatim>\<open>\S\<close> in that range is TAB, LF, VT, FF, CR,
  SPACE and NO-BREAK SPACE.
\<close>

definition is_space :: "char \<Rightarrow> bool" where
  "is_space c = (c \<in> set [CHR 0x09, CHR 0x0A, CHR 0x0B, CHR 0x0C, CHR 0x0D, CHR 0x20, CHR 0xA0])"

definition trim :: "string \<Rightarrow> string" where
  "trim s = rev (dropWhile is_space (rev (dropWhile is_space s)))"

definition lower_char :: "char \<Rightarrow> char" where
  "lower_char c =
     (let n = (of_char c :: nat)
      in if (65 \<le> n \<and> n \<le> 90) \<or> (192 \<le> n \<and> n \<le> 222 \<and> n \<noteq> 215)
         then char_of (n + 32) else c)"

definition toLowerCase :: "string \<Rightarrow> string" where
  "toLowerCase s = map lower_char s"

text \<open>\<^verbatim>\<open>s.includes(q)\<close>: \<open>q\<close> occurs in \<open>s\<close> as a contiguous substring.\<close>

fun str_includes :: "string \<Rightarrow> string \<Rightarrow> bool" where
  "str_includes [] q = (q = [])"
| "str_includes (c # cs) q = (prefix q (c # cs) \<or> str_includes cs q)"

text \<open>
  \<^verbatim>\<open>/\S+@\S+\.\S+/.test(s)\<close>. The expression is not anchored, so the first \<^verbatim>\<open>\S+\<close> may be
  cut down to the one character before the \<^verbatim>\<open>@\<close> and the last to the one character after
  the dot. \<open>after_at seen cs\<close> reads the text after the \<^verbatim>\<open>@\<close>: a run of
  non-space characters (\<open>seen\<close> says that the run is not empty so far), then a dot, then
  one more non-space character. The dot is itself a non-space character, so the run may
  go on over it.
\<close>

fun after_at :: "bool \<Rightarrow> string \<Rightarrow> bool" where
  "after_at seen [] = False"
| "after_at seen (c # cs) =
     (if is_space c then False
      else (seen \<and> c = CHR ''.'' \<and> (case cs of [] \<Rightarrow> False | d # _ \<Rightarrow> \<not> is_space d))
           \<or> after_at True cs)"

fun email_scan :: "bool \<Rightarrow> string \<Rightarrow> bool" where
  "email_scan prev [] = False"
| "email_scan prev (c # cs) =
     ((prev \<and> c = CHR ''@'' \<and> after_at False cs) \<or> email_scan (\<not> is_space c) cs)"

definition email_pattern_test :: "string \<Rightarrow> bool" where
  "email_pattern_test s = email_scan False s"

text \<open>
  What the two scanners are meant to accept, stated on the text itself: \<open>after_at_spec\<close>
  for the part after the at sign, \<open>email_scan_spec\<close> for an at sign with a non-space
  character before it and such a part after it.
\<close>

definition after_at_spec :: "bool \<Rightarrow> string \<Rightarrow> bool" where
  "after_at_spec seen cs =
     (\<exists>b c q. cs = b @ CHR ''.'' # c @ q \<and> (seen \<or> b \<noteq> []) \<and> c \<noteq> [] \<and>
        list_all (\<lambda>x. \<not> is_space x) (b @ c))"

definition email_scan_spec :: "string \<Rightarrow> bool" where
  "email_scan_spec s =
     (\<exists>p x rest. s = p @ x # CHR ''@'' # rest \<and> \<not> is_space x \<and> after_at False rest)"

text \<open>Decimal text of a number, as a template literal or \<^verbatim>\<open>String(n)\<close> prints it.\<close>

definition digit_char :: "nat \<Rightarrow> char" where
  "digit_char d = char_of (48 + d)"

fun show_nat :: "nat \<Rightarrow> string" where
  "show_nat n = (if n < 10 then [digit_char n] else show_nat (n div 10) @ [digit_char (n mod 10)])"

declare show_nat.simps [simp del]

definition show_int :: "int \<Rightarrow> string" where
  "show_int i = (if i < 0 then CHR ''-'' # show_nat (nat (- i)) else show_nat (nat i))"

section \<open>JSON values and JavaScript errors\<close>

text \<open>
  What \<^verbatim>\<open>response.json()\<close> yields. A number is one of the integers from \<open>- 2 ^ 53\<close> to
  \<open>2 ^ 53 - 1\<close> (seat counts, status codes), which the engine's numbers hold exactly and
  print with all their digits: \<open>JNum n\<close> is the number \<open>sint n\<close>. An object is the list of
  its members in order, each name once.
\<close>

datatype json =
    JNull
  | JBool bool
  | JNum "54 word"
  | JStr string
  | JArr "json list"
  | JObj "(string \<times> json) list"

text \<open>
  The values a \<^verbatim>\<open>throw\<close> of the client can carry. \<open>ApiError message status data\<close> is the
  class of the same name; \<open>StatusError\<close> is the plain \<^verbatim>\<open>Error\<close> of the earlier
  \<^verbatim>\<open>handleResponse\<close>, with \<^verbatim>\<open>status\<close> and \<^verbatim>\<open>data\<close> attached afterwards;
  \<open>ThrownValue\<close> is a thrown value that is not an instance of \<^verbatim>\<open>Error\<close>.
\<close>

datatype js_error =
    ApiError string nat json
  | StatusError string nat json
  | TypeError string
  | SyntaxError string
  | PlainError string
  | ThrownValue json

fun is_Error :: "js_error \<Rightarrow> bool" where
  "is_Error (ThrownValue v) = False"
| "is_Error e = True"

fun is_ApiError :: "js_error \<Rightarrow> bool" where
  "is_ApiError (ApiError m s d) = True"
| "is_ApiError e = False"

fun error_message :: "js_error \<Rightarrow> string" where
  "error_message (ApiError m s d) = m"
| "error_message (StatusError m s d) = m"
| "error_message (TypeError m) = m"
| "error_message (SyntaxError m) = m"
| "error_message (PlainError m) = m"
| "error_message (ThrownValue v) = []"

fun error_status :: "js_error \<Rightarrow> nat option" where
  "error_status (ApiError m s d) = Some s"
| "error_status (StatusError m s d) = Some s"
| "error_status e = None"

text \<open>The texts of the engine's own errors are engine-defined; these stand for them.\<close>

definition null_member_message :: string where
  "null_member_message = ''Cannot read properties of null''"

definition json_parse_message :: string where
  "json_parse_message = ''Unexpected token in JSON''"

definition failed_to_fetch :: js_error where
  "failed_to_fetch = TypeError ''Failed to fetch''"

text \<open>
  Reading a member such as \<^verbatim>\<open>errorData.error\<close> or \<^verbatim>\<open>data.message\<close> of a parsed body:
  on \<^verbatim>\<open>null\<close> it throws a \<^verbatim>\<open>TypeError\<close>; an object yields its member or \<^verbatim>\<open>undefined\<close>
  (\<open>None\<close>); a string, a number, a boolean and an array have no member of these names.
\<close>

fun js_member :: "string \<Rightarrow> json \<Rightarrow> js_error + json option" where
  "js_member m JNull = Inl (TypeError null_member_message)"
| "js_member m (JObj fs) = Inr (map_of fs m)"
| "js_member m v = Inr None"

fun truthy :: "json \<Rightarrow> bool" where
  "truthy JNull = False"
| "truthy (JBool b) = b"
| "truthy (JNum n) = (n \<noteq> 0)"
| "truthy (JStr s) = (s \<noteq> [])"
| "truthy (JArr xs) = True"
| "truthy (JObj fs) = True"

text \<open>
  \<^verbatim>\<open>ToString\<close>, which the \<^verbatim>\<open>Error\<close> constructor applies to its message argument. On an
  object it calls the object's \<^verbatim>\<open>toString\<close>: a parsed object without a member of that name
  inherits the one that yields \<^verbatim>\<open>[object Object]\<close>; with such a member, which is never a
  function, the conversion falls back to \<^verbatim>\<open>valueOf\<close>, which is an own member and no
  function either or the inherited one that returns the object itself, and throws a
  \<^verbatim>\<open>TypeError\<close>. On an array it joins the elements' texts with commas, \<^verbatim>\<open>null\<close> counting
  as the empty text, and throws what the first failing element throws.
\<close>

definition convert_error :: js_error where
  "convert_error = TypeError ''Cannot convert object to primitive value''"

fun js_ToString :: "json \<Rightarrow> js_error + string"
  and join_elements :: "json list \<Rightarrow> js_error + string" where
  "js_ToString JNull = Inr ''null''"
| "js_ToString (JBool b) = Inr (if b then ''true'' else ''false'')"
| "js_ToString (JNum n) = Inr (show_int (sint n))"
| "js_ToString (JStr s) = Inr s"
| "js_ToString (JArr xs) = join_elements xs"
| "js_ToString (JObj fs) =
     (if map_of fs ''toString'' = None then Inr ''[object Object]'' else Inl convert_error)"
| "join_elements [] = Inr []"
| "join_elements (x # xs) =
     (case (if x = JNull then Inr [] else js_ToString x) of
        Inl e \<Rightarrow> Inl e
      | Inr s \<Rightarrow>
          (case join_elements xs of
             Inl e \<Rightarrow> Inl e
           | Inr t \<Rightarrow> Inr (s @ (if xs = [] then [] else '','' @ t))))"

text \<open>
  Whether a value converts to a string without a throw, and whether the member
  \<^verbatim>\<open>error\<close> of a response body does, if the body parses and has one.
\<close>

definition converts :: "json \<Rightarrow> bool" where
  "converts v = (\<not> isl (js_ToString v))"

definition error_converts :: "json option \<Rightarrow> bool" where
  "error_converts b =
     (case b of
        None \<Rightarrow> True
      | Some j \<Rightarrow> (case js_member ''error'' j of Inr (Some v) \<Rightarrow> converts v | _ \<Rightarrow> True))"

text \<open>\<^verbatim>\<open>v || fallback\<close> with \<open>v\<close> possibly \<^verbatim>\<open>undefined\<close>.\<close>

definition or_else :: "json option \<Rightarrow> json \<Rightarrow> json" where
  "or_else v fallback = (case v of None \<Rightarrow> fallback | Some x \<Rightarrow> if truthy x then x else fallback)"

section \<open>HTTP responses and the fetch environment\<close>

text \<open>
  A \<^verbatim>\<open>Response\<close>: \<open>body = None\<close> is a body that is not JSON text, on which
  \<^verbatim>\<open>response.json()\<close> rejects. \<^verbatim>\<open>response.ok\<close> is true for the statuses 200 to 299.
  The platform's status is a number below 65536, whose text in a template literal is its
  decimal digits.
\<close>

record response =
  status :: nat
  statusText :: string
  body :: "json option"

definition response_ok :: "response \<Rightarrow> bool" where
  "response_ok r = (200 \<le> status r \<and> status r \<le> 299)"

definition response_json :: "response \<Rightarrow> js_error + json" where
  "response_json r = (case body r of None \<Rightarrow> Inl (SyntaxError json_parse_message) | Some j \<Rightarrow> Inr j)"

text \<open>
  A call of \<^verbatim>\<open>fetch\<close>, and the network as a function from the call to its outcome:
  \<open>Inl\<close> a rejection (a network failure), \<open>Inr\<close> the response.
\<close>

record fetch_call =
  url :: string
  http_method :: string
  headers :: "(string \<times> string) list"
  request_body :: "string option"

type_synonym network = "fetch_call \<Rightarrow> js_error + response"

definition fetch_get :: "string \<Rightarrow> fetch_call" where
  "fetch_get u = \<lparr>url = u, http_method = ''GET'', headers = [], request_body = None\<rparr>"

section \<open>The API client (services/api.ts)\<close>

text \<open>
  Two revisions of the module are in the sources. The later one (with the class
  \<^verbatim>\<open>ApiError\<close>; it is the one the hooks import) carries the plain names; the earlier one,
  the file at \<^verbatim>\<open>frontend/src/services/api.ts\<close> that the single-component \<^verbatim>\<open>App.tsx\<close>
  imports, carries the suffix \<open>_rev1\<close>. \<^verbatim>\<open>API_BASE_URL\<close> comes from the build
  environment and is a parameter \<open>base\<close>.
\<close>

record CourseDetailsSection =
  block_type :: string
  key :: string
  open_seats :: int
  total_seats :: int
  section_label :: string

record CourseDetailsSection_rev1 =
  block_type_rev1 :: string
  key_rev1 :: string
  open_seats_rev1 :: int
  section_rev1 :: string

text \<open>
  The member \<^verbatim>\<open>section\<close> is \<open>section_label\<close> here, and the members \<^verbatim>\<open>id\<close> and \<^verbatim>\<open>name\<close> of
  a term are \<open>term_ident\<close> and \<open>term_name\<close>.
\<close>

record Term =
  term_ident :: string
  term_name :: string

record WatchRequestPayload =
  email :: string
  term_id :: string
  course_code :: string
  section_key :: string

text \<open>
  The interface declarations themselves, member by member, for the statements that are
  about which members a declaration has.
\<close>

datatype ts_type = TString | TNumber

type_synonym ts_interface = "(string \<times> ts_type) list"

definition CourseDetailsSection_interface :: ts_interface where
  "CourseDetailsSection_interface =
     [(''block_type'', TString), (''key'', TString), (''open_seats'', TNumber),
      (''total_seats'', TNumber), (''section'', TString)]"

definition CourseDetailsSection_interface_rev1 :: ts_interface where
  "CourseDetailsSection_interface_rev1 =
     [(''block_type'', TString), (''key'', TString), (''open_seats'', TNumber),
      (''section'', TString)]"

subsection \<open>encodeURIComponent and JSON.stringify\<close>

definition hex_digit :: "nat \<Rightarrow> char" where
  "hex_digit d = (if d < 10 then char_of (48 + d) else char_of (55 + d))"

definition percent_byte :: "nat \<Rightarrow> string" where
  "percent_byte b = [CHR ''%'', hex_digit (b div 16), hex_digit (b mod 16)]"

definition uri_unreserved :: "char \<Rightarrow> bool" where
  "uri_unreserved c =
     (let n = (of_char c :: nat)
      in (65 \<le> n \<and> n \<le> 90) \<or> (97 \<le> n \<and> n \<le> 122) \<or> (48 \<le> n \<and> n \<le> 57) \<or>
         c \<in> set ''-_.!~*()'' \<or> c = CHR 0x27)"

text \<open>A code unit from U+0080 on is percent-encoded as the two bytes of its UTF-8 form.\<close>

definition encode_char :: "char \<Rightarrow> string" where
  "encode_char c =
     (let n = (of_char c :: nat)
      in if uri_unreserved c then [c]
         else if n < 128 then percent_byte n
         else percent_byte (192 + n div 64) @ percent_byte (128 + n mod 64))"

definition encodeURIComponent :: "string \<Rightarrow> string" where
  "encodeURIComponent s = concat (map encode_char s)"

definition lower_hex_digit :: "nat \<Rightarrow> char" where
  "lower_hex_digit d = (if d < 10 then char_of (48 + d) else char_of (87 + d))"

definition quote_char :: "char \<Rightarrow> string" where
  "quote_char c =
     (let n = (of_char c :: nat)
      in if c = CHR 0x22 then [CHR 0x5C, CHR 0x22]
         else if c = CHR 0x5C then [CHR 0x5C, CHR 0x5C]
         else if c = CHR 0x08 then [CHR 0x5C, CHR ''b'']
         else if c = CHR 0x0C then [CHR 0x5C, CHR ''f'']
         else if c = CHR 0x0A then [CHR 0x5C, CHR ''n'']
         else if c = CHR 0x0D then [CHR 0x5C, CHR ''r'']
         else if c = CHR 0x09 then [CHR 0x5C, CHR ''t'']
         else if n < 32 then [CHR 0x5C, CHR ''u'', CHR ''0'', CHR ''0'',
                              lower_hex_digit (n div 16), lower_hex_digit (n mod 16)]
         else [c])"

definition QuoteJSONString :: "string \<Rightarrow> string" where
  "QuoteJSONString s = CHR 0x22 # concat (map quote_char s) @ [CHR 0x22]"

fun JSON_stringify :: "json \<Rightarrow> string"
  and stringify_elements :: "json list \<Rightarrow> string"
  and stringify_members :: "(string \<times> json) list \<Rightarrow> string" where
  "JSON_stringify JNull = ''null''"
| "JSON_stringify (JBool b) = (if b then ''true'' else ''false'')"
| "JSON_stringify (JNum n) = show_int (sint n)"
| "JSON_stringify (JStr s) = QuoteJSONString s"
| "JSON_stringify (JArr xs) = ''['' @ stringify_elements xs @ '']''"
| "JSON_stringify (JObj fs) = ''{'' @ stringify_members fs @ ''}''"
| "stringify_elements [] = []"
| "stringify_elements (x # xs) =
     JSON_stringify x @ (if xs = [] then [] else '','' @ stringify_elements xs)"
| "stringify_members [] = []"
| "stringify_members (f # fs) =
     QuoteJSONString (fst f) @ '':'' @ JSON_stringify (snd f) @
     (if fs = [] then [] else '','' @ stringify_members fs)"

text \<open>
  The payload as the object literal builds it (members in the order written), which is
  what \<^verbatim>\<open>JSON.stringify(payload)\<close> serialises.
\<close>

definition payload_object :: "WatchRequestPayload \<Rightarrow> json" where
  "payload_object p =
     JObj [(''email'', JStr (email p)), (''term_id'', JStr (term_id p)),
           (''course_code'', JStr (course_code p)), (''section_key'', JStr (section_key p))]"

definition watch_fetch_call :: "string \<Rightarrow> WatchRequestPayload \<Rightarrow> fetch_call" where
  "watch_fetch_call base payload =
     \<lparr>url = base @ ''/watch'', http_method = ''POST'',
      headers = [(''Content-Type'', ''application/json'')],
      request_body = Some (JSON_stringify (payload_object payload))\<rparr>"

subsection \<open>The later revision\<close>

definition handleResponse :: "response \<Rightarrow> js_error + json" where
  "handleResponse response =
     (if \<not> response_ok response then
        (let errorData =
               (case response_json response of
                  Inl e \<Rightarrow> JObj [(''error'', JStr (''HTTP error! status: '' @
                              show_nat (status response) @ '' '' @ statusText response))]
                | Inr j \<Rightarrow> j)
         in case js_member ''error'' errorData of
              Inl e \<Rightarrow> Inl e
            | Inr m \<Rightarrow>
                (case js_ToString (or_else m
                        (JStr (''HTTP error! status: '' @ show_nat (status response)))) of
                   Inl e \<Rightarrow> Inl e
                 | Inr message \<Rightarrow> Inl (ApiError message (status response) errorData)))
      else response_json response)"

definition getTerms :: "network \<Rightarrow> string \<Rightarrow> js_error + json" where
  "getTerms net base =
     (case net (fetch_get (base @ ''/terms'')) of
        Inl e \<Rightarrow> Inl e
      | Inr response \<Rightarrow> handleResponse response)"

definition getCourses :: "network \<Rightarrow> string \<Rightarrow> string \<Rightarrow> js_error + json" where
  "getCourses net base termId =
     (case net (fetch_get (base @ ''/terms/'' @ termId @ ''/courses'')) of
        Inl e \<Rightarrow> Inl e
      | Inr response \<Rightarrow>
          if status response = 404 then Inr (JArr []) else handleResponse response)"

definition getCourseDetails :: "network \<Rightarrow> string \<Rightarrow> string \<Rightarrow> string \<Rightarrow> js_error + json" where
  "getCourseDetails net base termId courseCode =
     (let encodedCourseCode = encodeURIComponent courseCode
      in case net (fetch_get (base @ ''/terms/'' @ termId @ ''/courses/'' @ encodedCourseCode)) of
           Inl e \<Rightarrow> Inl e
         | Inr response \<Rightarrow>
             if status response = 404 then Inr (JObj []) else handleResponse response)"

text \<open>
  \<^verbatim>\<open>addWatchRequest\<close>: the body of the \<^verbatim>\<open>try\<close> first, then the \<^verbatim>\<open>catch\<close>, which throws
  an \<^verbatim>\<open>Error\<close> again as it is and replaces anything else.
\<close>

definition addWatchRequest_try :: "network \<Rightarrow> string \<Rightarrow> WatchRequestPayload \<Rightarrow> js_error + json" where
  "addWatchRequest_try net base payload =
     (case net (watch_fetch_call base payload) of
        Inl e \<Rightarrow> Inl e
      | Inr response \<Rightarrow>
          if \<not> response_ok response then
            (let errorData =
                   (case response_json response of
                      Inl e \<Rightarrow> JObj [(''error'', JStr (''Request failed with status '' @
                                  show_nat (status response) @ '' '' @ statusText response))]
                    | Inr j \<Rightarrow> j)
             in case js_member ''error'' errorData of
                  Inl e \<Rightarrow> Inl e
                | Inr m \<Rightarrow>
                    (case js_ToString (or_else m
                            (JStr (''Request failed with status '' @ show_nat (status response)))) of
                       Inl e \<Rightarrow> Inl e
                     | Inr message \<Rightarrow> Inl (ApiError message (status response) errorData)))
          else response_json response)"

definition addWatchRequest :: "network \<Rightarrow> string \<Rightarrow> WatchRequestPayload \<Rightarrow> js_error + json" where
  "addWatchRequest net base payload =
     (case addWatchRequest_try net base payload of
        Inr v \<Rightarrow> Inr v
      | Inl error \<Rightarrow>
          if is_Error error then Inl error
          else Inl (PlainError ''An unknown error occurred during the watch request.''))"

subsection \<open>The earlier revision\<close>

definition handleResponse_rev1 :: "response \<Rightarrow> js_error + json" where
  "handleResponse_rev1 response =
     (if \<not> response_ok response then
        (let errorData =
               (case response_json response of
                  Inl e \<Rightarrow> JObj [(''error'', JStr (''HTTP error! status: '' @
                              show_nat (status response) @ '' '' @ statusText response))]
                | Inr j \<Rightarrow> j)
         in case js_member ''error'' errorData of
              Inl e \<Rightarrow> Inl e
            | Inr m \<Rightarrow>
                (case js_ToString (or_else m
                        (JStr (''HTTP error! status: '' @ show_nat (status response)))) of
                   Inl e \<Rightarrow> Inl e
                 | Inr message \<Rightarrow> Inl (StatusError message (status response) errorData)))
      else response_json response)"

definition getCourses_rev1 :: "network \<Rightarrow> string \<Rightarrow> string \<Rightarrow> js_error + json" where
  "getCourses_rev1 net base termId =
     (case net (fetch_get (base @ ''/courses/'' @ termId)) of
        Inl e \<Rightarrow> Inl e
      | Inr response \<Rightarrow>
          if status response = 404 then Inr (JArr []) else handleResponse_rev1 response)"

definition getCourseDetails_rev1 :: "network \<Rightarrow> string \<Rightarrow> string \<Rightarrow> string \<Rightarrow> js_error + json" where
  "getCourseDetails_rev1 net base termId courseCode =
     (let encodedCourseCode = encodeURIComponent courseCode
      in case net (fetch_get (base @ ''/course_details/'' @ termId @ ''/'' @ encodedCourseCode)) of
           Inl e \<Rightarrow> Inl e
         | Inr response \<Rightarrow>
             if status response = 404 then Inr (JObj []) else handleResponse_rev1 response)"

text \<open>
  The earlier \<^verbatim>\<open>addWatchRequest\<close> never throws: every failure comes back as a value
  \<^verbatim>\<open>{ error: ... }\<close>.
\<close>

definition addWatchRequest_rev1_try :: "network \<Rightarrow> string \<Rightarrow> WatchRequestPayload \<Rightarrow> js_error + json" where
  "addWatchRequest_rev1_try net base payload =
     (case net (watch_fetch_call base payload) of
        Inl e \<Rightarrow> Inl e
      | Inr response \<Rightarrow>
          if response_ok response then response_json response
          else
            (let errorData =
                   (case response_json response of
                      Inl e \<Rightarrow> JObj [(''error'', JStr (''Request failed with status '' @
                                  show_nat (status response)))]
                    | Inr j \<Rightarrow> j)
             in case js_member ''error'' errorData of
                  Inl e \<Rightarrow> Inl e
                | Inr m \<Rightarrow>
                    Inr (JObj [(''error'', or_else m
                           (JStr (''Request failed with status '' @ show_nat (status response))))])))"

definition addWatchRequest_rev1 :: "network \<Rightarrow> string \<Rightarrow> WatchRequestPayload \<Rightarrow> js_error + json" where
  "addWatchRequest_rev1 net base payload =
     (case addWatchRequest_rev1_try net base payload of
        Inr v \<Rightarrow> Inr v
      | Inl error \<Rightarrow>
          if is_Error error
          then Inr (JObj [(''error'', JStr (''An network error occurred: '' @ error_message error))])
          else Inr (JObj [(''error'', JStr ''An unknown error occurred during the watch request.'')]))"

text \<open>
  Whether an outcome of \<^verbatim>\<open>addWatchRequest\<close> carries the HTTP status \<open>st\<close>: a thrown error
  in its \<^verbatim>\<open>status\<close> field, a returned object in a member \<^verbatim>\<open>status\<close>.
\<close>

definition carries_status :: "js_error + json \<Rightarrow> nat \<Rightarrow> bool" where
  "carries_status out st =
     (case out of
        Inl e \<Rightarrow> error_status e = Some st
      | Inr v \<Rightarrow> js_member ''status'' v = Inr (Some (JNum (of_nat st))))"

section \<open>Course selection context\<close>

text \<open>
  \<^verbatim>\<open>CourseSelectionProvider\<close> (contexts/CourseSelectionContext.tsx) keeps two pieces of
  React state, both initialised with the empty string, and exposes two setters.
\<close>

record selection =
  selectedTerm :: string
  selectedCourse :: string

definition initial_selection :: selection where
  "initial_selection = \<lparr>selectedTerm = '''', selectedCourse = ''''\<rparr>"

definition setSelectedTerm :: "string \<Rightarrow> selection \<Rightarrow> selection" where
  "setSelectedTerm termId s = s\<lparr>selectedTerm := termId, selectedCourse := ''''\<rparr>"

definition setSelectedCourse :: "string \<Rightarrow> selection \<Rightarrow> selection" where
  "setSelectedCourse courseCode s = s\<lparr>selectedCourse := courseCode\<rparr>"

datatype selection_call = SetSelectedTerm string | SetSelectedCourse string

fun selection_step :: "selection \<Rightarrow> selection_call \<Rightarrow> selection" where
  "selection_step s (SetSelectedTerm t) = setSelectedTerm t s"
| "selection_step s (SetSelectedCourse c) = setSelectedCourse c s"

definition selection_run :: "selection_call list \<Rightarrow> selection \<Rightarrow> selection" where
  "selection_run calls s = foldl selection_step s calls"

fun is_course_call :: "selection_call \<Rightarrow> bool" where
  "is_course_call (SetSelectedCourse c) = True"
| "is_course_call (SetSelectedTerm t) = False"

section \<open>Section rows and the watch dialog (component revision)\<close>

datatype toast =
    ToastError string string
  | ToastWarning string string
  | ToastSuccess json

text \<open>
  What a handler does besides changing state: a toast, the dialog's call of its
  \<^verbatim>\<open>onSubmit\<close> prop, and a call of \<^verbatim>\<open>fetch\<close>.
\<close>

datatype ui_effect =
    Toast toast
  | OnSubmit string
  | Fetch fetch_call

text \<open>
  \<^verbatim>\<open>SectionBlock\<close> renders one \<^verbatim>\<open>SectionRow\<close> per section and computes the row's
  \<^verbatim>\<open>isWatchDisabled\<close> prop.
\<close>

record SectionRowProps =
  row_section :: CourseDetailsSection
  isWatchDisabled :: bool
  isWatchMutationPending :: bool

definition SectionBlock_rows :: "CourseDetailsSection list \<Rightarrow> bool \<Rightarrow> SectionRowProps list" where
  "SectionBlock_rows sections pending =
     map (\<lambda>s. \<lparr>row_section = s,
               isWatchDisabled = (open_seats s > 0 \<or> pending),
               isWatchMutationPending = pending\<rparr>) sections"

definition SectionRow_tooltip :: "SectionRowProps \<Rightarrow> string" where
  "SectionRow_tooltip row =
     (if open_seats (row_section row) > 0 then ''Section is already open''
      else if isWatchMutationPending row then ''Submitting watch request...''
      else ''Watch this section'')"

text \<open>
  The state of \<^verbatim>\<open>CourseDetailsDisplay\<close> with what it reads from the context
  (\<open>sel\<close>), from the details query (\<open>courseDetails\<close>, the blocks in order) and from the
  mutation (\<open>isPending\<close>), and the state of \<^verbatim>\<open>WatchSectionDialog\<close>.
\<close>

record watch_ui =
  sel :: selection
  courseDetails :: "(string \<times> CourseDetailsSection list) list"
  watchSection :: "CourseDetailsSection option"
  isWatchDialogOpen :: bool
  isPending :: bool
  dialog_email :: string
  isValidEmail :: bool

definition initial_watch_ui :: watch_ui where
  "initial_watch_ui =
     \<lparr>sel = initial_selection, courseDetails = [], watchSection = None,
      isWatchDialogOpen = False, isPending = False, dialog_email = [], isValidEmail = False\<rparr>"

definition rendered_rows :: "watch_ui \<Rightarrow> SectionRowProps list" where
  "rendered_rows st =
     concat (map (\<lambda>(blockType, sections). SectionBlock_rows sections (isPending st))
                 (courseDetails st))"

definition handleWatchClick :: "CourseDetailsSection \<Rightarrow> watch_ui \<Rightarrow> watch_ui" where
  "handleWatchClick s st = st\<lparr>watchSection := Some s, isWatchDialogOpen := True\<rparr>"

text \<open>A click on a row's button reaches \<^verbatim>\<open>onClick\<close> only when the button is not disabled.\<close>

definition click_row :: "SectionRowProps \<Rightarrow> watch_ui \<Rightarrow> watch_ui" where
  "click_row row st = (if isWatchDisabled row then st else handleWatchClick (row_section row) st)"

text \<open>
  The dialog's validation effect, run after every change of the e-mail field, and the
  field's setter followed by it.
\<close>

definition email_valid :: "string \<Rightarrow> bool" where
  "email_valid e = (trim e \<noteq> [] \<and> email_pattern_test e)"

definition setEmail :: "string \<Rightarrow> watch_ui \<Rightarrow> watch_ui" where
  "setEmail e st = st\<lparr>dialog_email := e, isValidEmail := email_valid e\<rparr>"

definition handleSubmit :: "watch_ui \<Rightarrow> ui_effect list" where
  "handleSubmit st =
     (if \<not> isValidEmail st \<or> isPending st \<or> watchSection st = None then
        (if \<not> isValidEmail st
         then [Toast (ToastError ''Invalid Email'' ''Please enter a valid email address.'')]
         else [])
      else [OnSubmit (dialog_email st)])"

text \<open>
  \<^verbatim>\<open>handleWatchSubmit\<close> of \<^verbatim>\<open>CourseDetailsDisplay\<close>; \<^verbatim>\<open>addWatchMutation.mutate(payload)\<close>
  runs \<^verbatim>\<open>addWatchRequest(payload)\<close>, whose first step is the \<^verbatim>\<open>fetch\<close>.
\<close>

definition handleWatchSubmit :: "string \<Rightarrow> watch_ui \<Rightarrow> string \<Rightarrow> ui_effect list" where
  "handleWatchSubmit base st e =
     (case watchSection st of
        None \<Rightarrow>
          [Toast (ToastError ''Missing Information''
             ''Cannot submit watch request. Course or section data is missing.'')]
      | Some s \<Rightarrow>
          if selectedTerm (sel st) = [] \<or> selectedCourse (sel st) = [] then
            [Toast (ToastError ''Missing Information''
               ''Cannot submit watch request. Course or section data is missing.'')]
          else
            [Fetch (watch_fetch_call base
               \<lparr>email = e, term_id = selectedTerm (sel st),
                course_code = selectedCourse (sel st), section_key = key s\<rparr>)])"

fun run_onSubmit :: "string \<Rightarrow> watch_ui \<Rightarrow> ui_effect \<Rightarrow> ui_effect list" where
  "run_onSubmit base st (OnSubmit e) = handleWatchSubmit base st e"
| "run_onSubmit base st eff = [eff]"

definition submit_form :: "string \<Rightarrow> watch_ui \<Rightarrow> ui_effect list" where
  "submit_form base st = concat (map (run_onSubmit base st) (handleSubmit st))"

text \<open>
  The callbacks passed to \<^verbatim>\<open>mutate\<close>. When \<^verbatim>\<open>data.message\<close> throws (the body was
  \<^verbatim>\<open>null\<close>), the rest of \<^verbatim>\<open>onSuccess\<close> does not run; the mutation is settled either way.
\<close>

definition onSuccess :: "json \<Rightarrow> watch_ui \<Rightarrow> watch_ui" where
  "onSuccess d st =
     (case js_member ''message'' d of
        Inl e \<Rightarrow> st\<lparr>isPending := False\<rparr>
      | Inr m \<Rightarrow> st\<lparr>isWatchDialogOpen := False, watchSection := None, isPending := False\<rparr>)"

definition onSuccess_effects :: "json \<Rightarrow> ui_effect list" where
  "onSuccess_effects d =
     (case js_member ''message'' d of
        Inl e \<Rightarrow> []
      | Inr m \<Rightarrow>
          [Toast (ToastSuccess (or_else m (JStr ''Watch request submitted successfully!'')))])"

definition onError_effects :: "js_error \<Rightarrow> ui_effect list" where
  "onError_effects err =
     [Toast (ToastError ''Submission Failed''
        (if is_Error err then error_message err else ''Failed to submit watch request.''))]"

fun is_Fetch :: "ui_effect \<Rightarrow> bool" where
  "is_Fetch (Fetch c) = True"
| "is_Fetch eff = False"

text \<open>
  The events of the watch flow. \<open>ClickRow i\<close> is a click on the button of the \<open>i\<close>-th
  rendered row; \<open>DetailsChanged\<close> is the details query delivering new data;
  \<open>MutationSucceeded\<close> and \<open>MutationFailed\<close> are the mutation settling. The guards
  under which \<^verbatim>\<open>CourseDetailsDisplay\<close> renders the rows and the dialog at all are left
  out, so the model allows every run the component allows.
\<close>

datatype ui_event =
    ClickRow nat
  | DetailsChanged "(string \<times> CourseDetailsSection list) list"
  | TypeEmail string
  | SubmitForm
  | DialogOpenChange bool
  | MutationSucceeded json
  | MutationFailed js_error
  | SelectTerm string
  | SelectCourse string

fun ui_step :: "string \<Rightarrow> watch_ui \<Rightarrow> ui_event \<Rightarrow> watch_ui \<times> ui_effect list" where
  "ui_step base st (ClickRow i) =
     (if i < length (rendered_rows st) then (click_row (rendered_rows st ! i) st, [])
      else (st, []))"
| "ui_step base st (DetailsChanged d) = (st\<lparr>courseDetails := d\<rparr>, [])"
| "ui_step base st (TypeEmail e) = (setEmail e st, [])"
| "ui_step base st SubmitForm =
     (let effs = submit_form base st
      in (if list_ex is_Fetch effs then st\<lparr>isPending := True\<rparr> else st, effs))"
| "ui_step base st (DialogOpenChange b) = (st\<lparr>isWatchDialogOpen := b\<rparr>, [])"
| "ui_step base st (MutationSucceeded d) = (onSuccess d st, onSuccess_effects d)"
| "ui_step base st (MutationFailed err) = (st\<lparr>isPending := False\<rparr>, onError_effects err)"
| "ui_step base st (SelectTerm t) = (st\<lparr>sel := setSelectedTerm t (sel st)\<rparr>, [])"
| "ui_step base st (SelectCourse c) = (st\<lparr>sel := setSelectedCourse c (sel st)\<rparr>, [])"

fun ui_run :: "string \<Rightarrow> watch_ui \<Rightarrow> ui_event list \<Rightarrow> watch_ui \<times> ui_effect list" where
  "ui_run base st [] = (st, [])"
| "ui_run base st (ev # evs) =
     (let (st1, effs1) = ui_step base st ev; (st2, effs2) = ui_run base st1 evs
      in (st2, effs1 @ effs2))"

text \<open>
  Two facts that hold of the watch flow in every state it reaches: the dialog's validity
  flag agrees with the e-mail field, and the section held for watching, if any, had no
  open seat in the row it was taken from.
\<close>

definition ui_inv :: "watch_ui \<Rightarrow> bool" where
  "ui_inv st =
     (isValidEmail st = email_valid (dialog_email st) \<and>
      (case watchSection st of None \<Rightarrow> True | Some s \<Rightarrow> open_seats s \<le> 0))"

text \<open>
  Whether the details on display show a section with the key \<open>k\<close> as open.
\<close>

definition observed_open :: "watch_ui \<Rightarrow> string \<Rightarrow> bool" where
  "observed_open st k =
     list_ex (\<lambda>s. key s = k \<and> open_seats s > 0) (concat (map snd (courseDetails st)))"

section \<open>The single-component revision (App.tsx)\<close>

record app_state =
  app_selectedTerm :: string
  app_selectedCourse :: string
  app_watchSection :: "CourseDetailsSection_rev1 option"
  watchEmail :: string
  app_isWatchDialogOpen :: bool
  isSubmittingWatch :: bool

text \<open>The \<^verbatim>\<open>disabled\<close> attribute of a row's watch button in \<^verbatim>\<open>renderCourseDetails\<close>.\<close>

definition app_watch_disabled :: "app_state \<Rightarrow> CourseDetailsSection_rev1 \<Rightarrow> bool" where
  "app_watch_disabled st s = (open_seats_rev1 s > 0 \<or> isSubmittingWatch st)"

definition app_handleWatchClick :: "CourseDetailsSection_rev1 \<Rightarrow> app_state \<Rightarrow> app_state" where
  "app_handleWatchClick s st = st\<lparr>app_watchSection := Some s, app_isWatchDialogOpen := True\<rparr>"

definition app_click_row :: "CourseDetailsSection_rev1 \<Rightarrow> app_state \<Rightarrow> app_state" where
  "app_click_row s st = (if app_watch_disabled st s then st else app_handleWatchClick s st)"

definition app_handleWatchSubmit :: "string \<Rightarrow> app_state \<Rightarrow> ui_effect list" where
  "app_handleWatchSubmit base st =
     (if watchEmail st = [] \<or> trim (watchEmail st) = [] then
        [Toast (ToastWarning ''Email Required'' ''Please enter your email address.'')]
      else if \<not> email_pattern_test (watchEmail st) then
        [Toast (ToastError ''Invalid Email'' ''Please enter a valid email address.'')]
      else
        (case app_watchSection st of
           None \<Rightarrow>
             [Toast (ToastError ''Missing Information''
                ''Cannot submit watch request. Course or section data is missing.'')]
         | Some s \<Rightarrow>
             if app_selectedTerm st = [] \<or> app_selectedCourse st = [] then
               [Toast (ToastError ''Missing Information''
                  ''Cannot submit watch request. Course or section data is missing.'')]
             else
               [Fetch (watch_fetch_call base
                  \<lparr>email = watchEmail st, term_id = app_selectedTerm st,
                   course_code = app_selectedCourse st, section_key = key_rev1 s\<rparr>)]))"

text \<open>
  The events of the watch flow in \<^verbatim>\<open>App.tsx\<close>: a click on the watch button of a row
  showing a section, typing the address, the dialog's submit button, the submission
  settling (with success or not), \<^verbatim>\<open>handleTermChange\<close> with the effect that resets
  the course when the term changes, \<^verbatim>\<open>handleCourseSelect\<close>, and the dialog opening or
  closing. Any section may be what a row shows, so the model allows every run the
  component allows.
\<close>

datatype app_event =
    AppClickRow CourseDetailsSection_rev1
  | AppTypeEmail string
  | AppSubmit
  | AppSettled bool
  | AppTermChange string
  | AppCourseSelect string
  | AppDialogOpenChange bool

definition initial_app_state :: app_state where
  "initial_app_state =
     \<lparr>app_selectedTerm = [], app_selectedCourse = [], app_watchSection = None,
      watchEmail = [], app_isWatchDialogOpen = False, isSubmittingWatch = False\<rparr>"

fun app_step :: "string \<Rightarrow> app_state \<Rightarrow> app_event \<Rightarrow> app_state \<times> ui_effect list" where
  "app_step base st (AppClickRow s) = (app_click_row s st, [])"
| "app_step base st (AppTypeEmail e) = (st\<lparr>watchEmail := e\<rparr>, [])"
| "app_step base st AppSubmit =
     (let effs = app_handleWatchSubmit base st
      in (if list_ex is_Fetch effs then st\<lparr>isSubmittingWatch := True\<rparr> else st, effs))"
| "app_step base st (AppSettled ok) =
     (if ok then st\<lparr>app_isWatchDialogOpen := False, watchEmail := [], isSubmittingWatch := False\<rparr>
      else st\<lparr>isSubmittingWatch := False\<rparr>, [])"
| "app_step base st (AppTermChange t) =
     (if t \<noteq> app_selectedTerm st then st\<lparr>app_selectedTerm := t, app_selectedCourse := []\<rparr>
      else st, [])"
| "app_step base st (AppCourseSelect c) = (st\<lparr>app_selectedCourse := c\<rparr>, [])"
| "app_step base st (AppDialogOpenChange b) = (st\<lparr>app_isWatchDialogOpen := b\<rparr>, [])"

fun app_run :: "string \<Rightarrow> app_state \<Rightarrow> app_event list \<Rightarrow> app_state" where
  "app_run base st [] = st"
| "app_run base st (ev # evs) = app_run base (fst (app_step base st ev)) evs"

text \<open>
  The section held for watching in \<^verbatim>\<open>App.tsx\<close>, if any, had no open seat in the row it
  was taken from.
\<close>

definition app_inv :: "app_state \<Rightarrow> bool" where
  "app_inv st = (case app_watchSection st of None \<Rightarrow> True | Some s \<Rightarrow> open_seats_rev1 s \<le> 0)"

section \<open>The course selector\<close>

definition INITIAL_COURSE_COUNT :: nat where
  "INITIAL_COURSE_COUNT = 30"

definition LOAD_MORE_COUNT :: nat where
  "LOAD_MORE_COUNT = 30"

record scroll_target =
  scrollTop :: int
  clientHeight :: int
  scrollHeight :: int

text \<open>
  \<^verbatim>\<open>handleCourseScroll\<close> as a function from the visible count to the new one. The guard
  reads the count from the closure and the updater receives it as its argument; both are
  the current count here.
\<close>

definition handleCourseScroll :: "string list \<Rightarrow> string \<Rightarrow> scroll_target \<Rightarrow> nat \<Rightarrow> nat" where
  "handleCourseScroll courses courseSearchQuery target visibleCourseCount =
     (if courseSearchQuery \<noteq> [] then visibleCourseCount
      else
        (let threshold = 50
         in if scrollTop target + clientHeight target \<ge> scrollHeight target - threshold \<and>
               visibleCourseCount < length courses
            then min (visibleCourseCount + LOAD_MORE_COUNT) (length courses)
            else visibleCourseCount))"

definition filteredAndDisplayedCourses :: "string list \<Rightarrow> string \<Rightarrow> nat \<Rightarrow> string list" where
  "filteredAndDisplayedCourses courses courseSearchQuery visibleCourseCount =
     (let query = toLowerCase (trim courseSearchQuery)
      in if query \<noteq> [] then filter (\<lambda>course. str_includes (toLowerCase course) query) courses
         else take visibleCourseCount courses)"

section \<open>Terms: the select step of useTerms and the default of TermSelector\<close>

text \<open>
  Arrays are objects with identity, and \<^verbatim>\<open>sort\<close> works in place, so the arrays live
  in a store: an address is an index into the list of arrays allocated so far, and a new
  array gets the next address. What the terms query resolved to is an array in the store
  or something that is not an array.
\<close>

type_synonym term_store = "Term list list"

datatype query_data = ArrayAt nat | NotAnArray

definition alloc :: "term_store \<Rightarrow> Term list \<Rightarrow> term_store \<times> nat" where
  "alloc h xs = (h @ [xs], length h)"

text \<open>
  \<^verbatim>\<open>Array.prototype.sort\<close> with a comparator: the array is sorted when \<^verbatim>\<open>cmp(a, b) <= 0\<close>
  holds for neighbours, and elements that compare equal keep their order. The engine
  chooses the algorithm; this is the stable insertion sort.
\<close>

fun insert_by :: "('a \<Rightarrow> 'a \<Rightarrow> int) \<Rightarrow> 'a \<Rightarrow> 'a list \<Rightarrow> 'a list" where
  "insert_by cmp x [] = [x]"
| "insert_by cmp x (y # ys) = (if cmp x y \<le> 0 then x # y # ys else y # insert_by cmp x ys)"

definition js_sort :: "('a \<Rightarrow> 'a \<Rightarrow> int) \<Rightarrow> 'a list \<Rightarrow> 'a list" where
  "js_sort cmp xs = foldr (insert_by cmp) xs []"

definition sort_in_place :: "(Term \<Rightarrow> Term \<Rightarrow> int) \<Rightarrow> term_store \<Rightarrow> nat \<Rightarrow> term_store" where
  "sort_in_place cmp h a = h[a := js_sort cmp (h ! a)]"

text \<open>
  The \<^verbatim>\<open>select\<close> option of \<^verbatim>\<open>useTerms\<close>. \<^verbatim>\<open>localeCompare\<close> is the engine's collation and
  is a parameter. The spread \<^verbatim>\<open>[...data]\<close> allocates the copy, \<^verbatim>\<open>sort\<close> sorts the copy
  in place and returns it.
\<close>

definition useTerms_select ::
    "(string \<Rightarrow> string \<Rightarrow> int) \<Rightarrow> term_store \<Rightarrow> query_data \<Rightarrow> term_store \<times> nat" where
  "useTerms_select localeCompare h data =
     (case data of
        NotAnArray \<Rightarrow> alloc h []
      | ArrayAt a \<Rightarrow>
          (let (h1, b) = alloc h (h ! a)
           in (sort_in_place (\<lambda>x y. localeCompare (term_ident x) (term_ident y)) h1 b, b)))"

text \<open>
  The effect of \<^verbatim>\<open>TermSelector\<close> that sets the initial term; \<open>None\<close> is the query's
  \<^verbatim>\<open>data\<close> being \<^verbatim>\<open>undefined\<close>.
\<close>

definition TermSelector_effect :: "selection \<Rightarrow> Term list option \<Rightarrow> selection" where
  "TermSelector_effect s terms =
     (case terms of
        None \<Rightarrow> s
      | Some ts \<Rightarrow>
          if selectedTerm s = [] \<and> length ts > 0
          then setSelectedTerm (term_ident (ts ! (length ts - 1))) s
          else s)"

text \<open>
  A consistent comparator, as \<^verbatim>\<open>sort\<close> requires of its argument: any two strings are
  comparable one way or the other, and the comparison is transitive.
\<close>

definition consistent_comparator :: "(string \<Rightarrow> string \<Rightarrow> int) \<Rightarrow> bool" where
  "consistent_comparator cmp =
     ((\<forall>a b. cmp a b \<le> 0 \<or> cmp b a \<le> 0) \<and>
      (\<forall>a b c. cmp a b \<le> 0 \<longrightarrow> cmp b c \<le> 0 \<longrightarrow> cmp a c \<le> 0))"

text \<open>A comparison by code units, for concrete runs.\<close>

fun code_unit_compare :: "string \<Rightarrow> string \<Rightarrow> int" where
  "code_unit_compare [] [] = 0"
| "code_unit_compare [] (y # ys) = - 1"
| "code_unit_compare (x # xs) [] = 1"
| "code_unit_compare (x # xs) (y # ys) =
     (if (of_char x :: nat) < of_char y then - 1
      else if (of_char y :: nat) < of_char x then 1
      else code_unit_compare xs ys)"

section \<open>The watch registry and the dispatcher\<close>

text \<open>
  Modelled from the spec: the backend (watch registry, poller, dispatcher, notifier and
  health sentinel) is not among the sources, which hold the client only. The status of a
  watch request is one of \<^verbatim>\<open>active\<close>, \<^verbatim>\<open>notified\<close>, \<^verbatim>\<open>deactivated\<close> (section 3).
\<close>

datatype watch_status = Active | Notified | Deactivated

text \<open>
  Modelled from the spec: the backend's watch row
  \<^verbatim>\<open>{id, email, term_id, course_code, section_key, status, created_at, notified_at?}\<close>
  (section 3); the row's definition is not among the sources.
\<close>

record WatchRequest =
  wr_id :: nat
  wr_email :: string
  wr_term_id :: string
  wr_course_code :: string
  wr_section_key :: string
  wr_status :: watch_status
  wr_created_at :: nat
  wr_notified_at :: "nat option"

text \<open>
  Modelled from the spec: one section of a fresh listing for a course, as the provider's
  \<^verbatim>\<open>getSectionData\<close> returns it (sections 3 and 6); the provider is not among the sources.
\<close>

record SectionSnapshot =
  sn_section_key :: string
  sn_open_seats :: int
  sn_total_seats :: int

text \<open>
  Modelled from the spec: the state of the backend engine, which is not among the
  sources: the persisted rows (never deleted), the snapshot store
  \<^verbatim>\<open>section_key \<rightarrow> (open_seats, total_seats, observed_at)\<close> and the sentinel's flag
  \<^verbatim>\<open>providerBlocked\<close> (sections 3 and 4.1).
\<close>

record engine =
  registry :: "WatchRequest list"
  snapshots :: "string \<Rightarrow> (int \<times> int \<times> nat) option"
  providerBlocked :: bool

text \<open>
  Modelled from the spec: the uniqueness test of the backend's submission (section 3, "at
  most one active watch per (email, term_id, course_code, section_key)"); the request
  handler is not among the sources.
\<close>

definition duplicate_active :: "WatchRequest list \<Rightarrow> string \<Rightarrow> string \<Rightarrow> string \<Rightarrow> string \<Rightarrow> bool" where
  "duplicate_active rows e t c k =
     list_ex (\<lambda>w. wr_status w = Active \<and> wr_email w = e \<and> wr_term_id w = t \<and>
                  wr_course_code w = c \<and> wr_section_key w = k) rows"

text \<open>
  Modelled from the spec: the backend's watch submission, not among the sources. A
  duplicate of an active watch is rejected; otherwise a new row is persisted as
  \<^verbatim>\<open>active\<close> (sections 3 and 6). How a section that is already open at submission is
  treated is left open by the spec (section 9) and is not modelled; it creates no
  transition of an existing row.
\<close>

definition submit_watch :: "nat \<Rightarrow> string \<Rightarrow> string \<Rightarrow> string \<Rightarrow> string \<Rightarrow> engine \<Rightarrow> engine" where
  "submit_watch now e t c k eng =
     (if duplicate_active (registry eng) e t c k then eng
      else eng\<lparr>registry := registry eng @
             [\<lparr>wr_id = length (registry eng), wr_email = e, wr_term_id = t, wr_course_code = c,
               wr_section_key = k, wr_status = Active, wr_created_at = now,
               wr_notified_at = None\<rparr>]\<rparr>)"

text \<open>
  Modelled from the spec: the dispatcher's opening transition (section 4.4), whose code
  is not among the sources: the prior \<^verbatim>\<open>open_seats\<close> is at most 0, or there is no prior
  entry, and the new \<^verbatim>\<open>open_seats\<close> is positive.
\<close>

definition opening_transition :: "(string \<Rightarrow> (int \<times> int \<times> nat) option) \<Rightarrow> SectionSnapshot \<Rightarrow> bool" where
  "opening_transition store s =
     (sn_open_seats s > 0 \<and>
      (case store (sn_section_key s) of None \<Rightarrow> True | Some (prior_open, _, _) \<Rightarrow> prior_open \<le> 0))"

text \<open>
  Modelled from the spec: what the dispatcher, which is not among the sources, does to
  one row when a complete listing \<open>fresh\<close> for the course \<open>(t, c)\<close> arrives (section
  4.4): an active watch of that course whose section has vanished is deactivated, one
  whose section opens is notified, and every other row is left as it is.
\<close>

definition dispatch_row ::
    "nat \<Rightarrow> (string \<Rightarrow> (int \<times> int \<times> nat) option) \<Rightarrow> string \<Rightarrow> string \<Rightarrow> SectionSnapshot list \<Rightarrow>
     WatchRequest \<Rightarrow> WatchRequest" where
  "dispatch_row now store t c fresh w =
     (if wr_status w = Active \<and> wr_term_id w = t \<and> wr_course_code w = c then
        (case find (\<lambda>s. sn_section_key s = wr_section_key w) fresh of
           None \<Rightarrow> w\<lparr>wr_status := Deactivated\<rparr>
         | Some s \<Rightarrow>
             if opening_transition store s
             then w\<lparr>wr_status := Notified, wr_notified_at := Some now\<rparr>
             else w)
      else w)"

text \<open>
  Modelled from the spec: the snapshot store after a listing, each listed section's entry
  replaced by the fresh one (section 4.4, "update the Snapshot Store entry"); the store
  is not among the sources.
\<close>

fun record_snapshots ::
    "nat \<Rightarrow> SectionSnapshot list \<Rightarrow> (string \<Rightarrow> (int \<times> int \<times> nat) option) \<Rightarrow>
     (string \<Rightarrow> (int \<times> int \<times> nat) option)" where
  "record_snapshots now [] store = store"
| "record_snapshots now (s # ss) store =
     record_snapshots now ss
       (store(sn_section_key s \<mapsto> (sn_open_seats s, sn_total_seats s, now)))"

text \<open>
  Modelled from the spec: the notification jobs of a listing, one per watch that went
  from \<^verbatim>\<open>active\<close> to \<^verbatim>\<open>notified\<close> (section 4.4); the dispatcher is not among the sources.
\<close>

definition notification_jobs :: "WatchRequest list \<Rightarrow> WatchRequest list \<Rightarrow> nat list" where
  "notification_jobs before after =
     map (\<lambda>(w, w'). wr_id w)
       (filter (\<lambda>(w, w'). wr_status w = Active \<and> wr_status w' = Notified) (zip before after))"

text \<open>
  Modelled from the spec: the operations of the backend, none of them among the sources:
  a watch submission, a complete listing fetched for a course, a failed or malformed
  fetch, the provider's authentication wall and the probe that ends it, and the outcome
  of a delivery attempt for a job (sections 4.1 to 4.5).
\<close>

datatype engine_op =
    SubmitWatch string string string string
  | CourseFetched string string "SectionSnapshot list"
  | FetchFailed string string
  | AuthRequired
  | ProbeSucceeded
  | Delivery nat bool

text \<open>
  Modelled from the spec: one step of the backend engine, not among the sources. While
  the provider is blocked no listing is evaluated (sections 4.1 and 8); a failed fetch is
  retried at the next tick and changes nothing (section 4.3); a delivery, failed or not,
  leaves the watch \<^verbatim>\<open>notified\<close> (section 4.5). The result is the new state and the
  notification jobs.
\<close>

fun engine_step :: "nat \<Rightarrow> engine \<Rightarrow> engine_op \<Rightarrow> engine \<times> nat list" where
  "engine_step now eng (SubmitWatch e t c k) = (submit_watch now e t c k eng, [])"
| "engine_step now eng (CourseFetched t c fresh) =
     (if providerBlocked eng then (eng, [])
      else
        (let rows = map (dispatch_row now (snapshots eng) t c fresh) (registry eng)
         in (eng\<lparr>registry := rows, snapshots := record_snapshots now fresh (snapshots eng)\<rparr>,
             notification_jobs (registry eng) rows)))"
| "engine_step now eng (FetchFailed t c) = (eng, [])"
| "engine_step now eng AuthRequired = (eng\<lparr>providerBlocked := True\<rparr>, [])"
| "engine_step now eng ProbeSucceeded = (eng\<lparr>providerBlocked := False\<rparr>, [])"
| "engine_step now eng (Delivery job ok) = (eng, [])"

text \<open>
  Modelled from the spec: a run of the backend engine, not among the sources: the
  operations in order, each with the time at which it happens.
\<close>

fun engine_run :: "engine \<Rightarrow> (nat \<times> engine_op) list \<Rightarrow> engine" where
  "engine_run eng [] = eng"
| "engine_run eng ((now, op) # ops) = engine_run (fst (engine_step now eng op)) ops"

text \<open>
  Modelled from the spec: the transitions the state machine of section 4.6 allows between
  the status of a row before and after: none, \<^verbatim>\<open>active\<close> to \<^verbatim>\<open>notified\<close>, or
  \<^verbatim>\<open>active\<close> to \<^verbatim>\<open>deactivated\<close>.
\<close>

fun allowed_change :: "watch_status \<Rightarrow> watch_status \<Rightarrow> bool" where
  "allowed_change Active s' = True"
| "allowed_change Notified s' = (s' = Notified)"
| "allowed_change Deactivated s' = (s' = Deactivated)"

section \<open>Properties of the course selection context\<close>

lemma selection_run_no_course_call:
  "list_all (\<lambda>a. \<not> is_course_call a) post \<Longrightarrow>
   selectedCourse (selection_run post s) = selectedCourse s \<or>
   selectedCourse (selection_run post s) = ''''"
proof (induction post arbitrary: s)
  case Nil
  then show ?case by (simp add: selection_run_def)
next
  case (Cons a post)
  then obtain t where a: "a = SetSelectedTerm t"
    by (cases a) auto
  from Cons.prems have rest: "list_all (\<lambda>a. \<not> is_course_call a) post" by simp
  have "selectedCourse (setSelectedTerm t s) = ''''"
    by (simp add: setSelectedTerm_def)
  with Cons.IH [OF rest, of "setSelectedTerm t s"] a show ?case
    by (auto simp: selection_run_def)
qed

text \<open>
  C9. \<^verbatim>\<open>setSelectedTerm(t)\<close> stores \<open>t\<close> and resets the course to the empty string;
  \<^verbatim>\<open>setSelectedCourse(c)\<close> stores \<open>c\<close> and leaves the term alone. Consequently, in any
  sequence of setter calls, once \<^verbatim>\<open>setSelectedTerm\<close> has been called and no
  \<^verbatim>\<open>setSelectedCourse\<close> call follows it, the course selection is empty: a course
  chosen under an earlier term does not survive the term change.
\<close>

theorem C9_selection_setters:
  "selectedTerm (setSelectedTerm t s) = t \<and>
   selectedCourse (setSelectedTerm t s) = '''' \<and>
   selectedCourse (setSelectedCourse c s) = c \<and>
   selectedTerm (setSelectedCourse c s) = selectedTerm s \<and>
   (list_all (\<lambda>a. \<not> is_course_call a) post \<longrightarrow>
      selectedCourse (selection_run (pre @ SetSelectedTerm t # post) s) = '''')"
proof -
  have "selectedCourse (selection_run post (setSelectedTerm t (selection_run pre s))) = ''''"
    if "list_all (\<lambda>a. \<not> is_course_call a) post"
    using selection_run_no_course_call [OF that, of "setSelectedTerm t (selection_run pre s)"]
    by (auto simp: setSelectedTerm_def)
  then show ?thesis
    by (simp add: setSelectedTerm_def setSelectedCourse_def selection_run_def)
qed

text \<open>
  A run for C9: a course chosen under one term is gone after two later term changes.
\<close>

theorem C9_selection_setters_witness:
  "selectedCourse
     (selection_run
        ([SetSelectedTerm ''2251'', SetSelectedCourse ''COMPSCI 1JC3''] @
         SetSelectedTerm ''2255'' # [SetSelectedTerm ''2259''])
        initial_selection) = ''''"
  using C9_selection_setters
    [of "''2255''" initial_selection "''x''" "[SetSelectedTerm ''2259'']"
        "[SetSelectedTerm ''2251'', SetSelectedCourse ''COMPSCI 1JC3'']"]
  by simp

section \<open>The e-mail pattern\<close>

lemma dot_not_space: "\<not> is_space CHR ''.''"
  by (simp add: is_space_def)

lemma after_at_specI:
  "cs = b @ CHR ''.'' # c @ q \<Longrightarrow> seen \<or> b \<noteq> [] \<Longrightarrow> c \<noteq> [] \<Longrightarrow>
   list_all (\<lambda>x. \<not> is_space x) (b @ c) \<Longrightarrow> after_at_spec seen cs"
  unfolding after_at_spec_def by blast

lemma after_at_Cons:
  "after_at seen (x # xs) \<longleftrightarrow>
     \<not> is_space x \<and>
     ((seen \<and> x = CHR ''.'' \<and> (\<exists>d ds. xs = d # ds \<and> \<not> is_space d)) \<or> after_at True xs)"
  by (cases xs) simp_all

lemma after_at_sound: "after_at seen cs \<Longrightarrow> after_at_spec seen cs"
proof (induction cs arbitrary: seen)
  case Nil
  then show ?case by simp
next
  case (Cons x xs)
  from Cons.prems have nx: "\<not> is_space x"
    unfolding after_at_Cons by blast
  from Cons.prems consider
      (here) d ds where "seen" "x = CHR ''.''" "xs = d # ds" "\<not> is_space d"
    | (later) "after_at True xs"
    unfolding after_at_Cons by blast
  then show ?case
  proof cases
    case here
    show ?thesis
    proof (rule after_at_specI [where b = "[]" and c = "[d]" and q = ds])
      show "x # xs = [] @ CHR ''.'' # [d] @ ds" using here by simp
      show "seen \<or> [] \<noteq> ([]::string)" using here by simp
      show "[d] \<noteq> []" by simp
      show "list_all (\<lambda>x. \<not> is_space x) ([] @ [d])" using here by simp
    qed
  next
    case later
    from Cons.IH [OF later] obtain b c q where
      xs: "xs = b @ CHR ''.'' # c @ q" and c: "c \<noteq> []"
      and ns: "list_all (\<lambda>x. \<not> is_space x) (b @ c)"
      unfolding after_at_spec_def by blast
    show ?thesis
    proof (rule after_at_specI [where b = "x # b" and c = c and q = q])
      show "x # xs = (x # b) @ CHR ''.'' # c @ q" using xs by simp
      show "seen \<or> x # b \<noteq> []" by simp
      show "c \<noteq> []" by (rule c)
      show "list_all (\<lambda>x. \<not> is_space x) ((x # b) @ c)" using ns nx by simp
    qed
  qed
qed

lemma after_at_complete_aux:
  "seen \<or> b \<noteq> [] \<Longrightarrow> list_all (\<lambda>x. \<not> is_space x) b \<Longrightarrow> \<not> is_space d \<Longrightarrow>
   after_at seen (b @ CHR ''.'' # d # r)"
proof (induction b arbitrary: seen)
  case Nil
  then show ?case by (simp add: dot_not_space)
next
  case (Cons x b)
  then have "after_at True (b @ CHR ''.'' # d # r)" by simp
  with Cons.prems show ?case
    unfolding append_Cons after_at_Cons by simp
qed

lemma after_at_iff: "after_at seen cs \<longleftrightarrow> after_at_spec seen cs"
proof
  show "after_at seen cs \<Longrightarrow> after_at_spec seen cs" by (rule after_at_sound)
next
  assume "after_at_spec seen cs"
  then obtain b c q where cs: "cs = b @ CHR ''.'' # c @ q" and sb: "seen \<or> b \<noteq> []"
    and c: "c \<noteq> []" and ns: "list_all (\<lambda>x. \<not> is_space x) (b @ c)"
    unfolding after_at_spec_def by blast
  from c obtain d c' where dc: "c = d # c'" by (cases c) auto
  from ns dc have "list_all (\<lambda>x. \<not> is_space x) b" "\<not> is_space d" by simp_all
  with sb have "after_at seen (b @ CHR ''.'' # d # (c' @ q))"
    by (rule after_at_complete_aux)
  then show "after_at seen cs" using cs dc by simp
qed


lemma email_scan_specI:
  "s = p @ x # CHR ''@'' # rest \<Longrightarrow> \<not> is_space x \<Longrightarrow> after_at False rest \<Longrightarrow> email_scan_spec s"
  unfolding email_scan_spec_def by blast

lemma email_scan_spec_Cons:
  "email_scan_spec (c # cs) \<longleftrightarrow>
     (\<not> is_space c \<and> (\<exists>rest. cs = CHR ''@'' # rest \<and> after_at False rest)) \<or> email_scan_spec cs"
proof
  assume "email_scan_spec (c # cs)"
  then obtain p x rest where s: "c # cs = p @ x # CHR ''@'' # rest" and x: "\<not> is_space x"
    and r: "after_at False rest"
    unfolding email_scan_spec_def by blast
  show "(\<not> is_space c \<and> (\<exists>rest. cs = CHR ''@'' # rest \<and> after_at False rest)) \<or> email_scan_spec cs"
  proof (cases p)
    case Nil
    with s have "c = x" "cs = CHR ''@'' # rest" by simp_all
    with x r show ?thesis by blast
  next
    case (Cons p0 p')
    with s have "cs = p' @ x # CHR ''@'' # rest" by simp
    then have "email_scan_spec cs" using x r by (rule email_scan_specI)
    then show ?thesis by blast
  qed
next
  assume "(\<not> is_space c \<and> (\<exists>rest. cs = CHR ''@'' # rest \<and> after_at False rest)) \<or> email_scan_spec cs"
  then consider (a) rest where "\<not> is_space c" "cs = CHR ''@'' # rest" "after_at False rest"
    | (b) "email_scan_spec cs"
    by blast
  then show "email_scan_spec (c # cs)"
  proof cases
    case a
    show ?thesis
    proof (rule email_scan_specI [where p = "[]" and x = c and rest = rest])
      show "c # cs = [] @ c # CHR ''@'' # rest" using a by simp
    qed (use a in simp_all)
  next
    case b
    then obtain p x rest where s: "cs = p @ x # CHR ''@'' # rest" and x: "\<not> is_space x"
      and r: "after_at False rest"
      unfolding email_scan_spec_def by blast
    show ?thesis
    proof (rule email_scan_specI [where p = "c # p" and x = x and rest = rest])
      show "c # cs = (c # p) @ x # CHR ''@'' # rest" using s by simp
    qed (use x r in simp_all)
  qed
qed

lemma email_scan_iff:
  "email_scan prev s \<longleftrightarrow>
     (prev \<and> (\<exists>rest. s = CHR ''@'' # rest \<and> after_at False rest)) \<or> email_scan_spec s"
proof (induction s arbitrary: prev)
  case Nil
  then show ?case by (simp add: email_scan_spec_def)
next
  case (Cons c cs)
  have "email_scan prev (c # cs) \<longleftrightarrow>
      (prev \<and> c = CHR ''@'' \<and> after_at False cs) \<or> email_scan (\<not> is_space c) cs"
    by simp
  also have "\<dots> \<longleftrightarrow> (prev \<and> c = CHR ''@'' \<and> after_at False cs) \<or>
      (\<not> is_space c \<and> (\<exists>rest. cs = CHR ''@'' # rest \<and> after_at False rest)) \<or> email_scan_spec cs"
    unfolding Cons.IH [of "\<not> is_space c"] by blast
  also have "\<dots> \<longleftrightarrow> (prev \<and> c = CHR ''@'' \<and> after_at False cs) \<or> email_scan_spec (c # cs)"
    unfolding email_scan_spec_Cons by blast
  also have "\<dots> \<longleftrightarrow> (prev \<and> (\<exists>rest. c # cs = CHR ''@'' # rest \<and> after_at False rest)) \<or>
      email_scan_spec (c # cs)"
    by auto
  finally show ?case .
qed

text \<open>
  The matcher accepts exactly the strings with a match of the expression: a non-empty
  run of non-space characters, an at sign, another such run, a dot, and a third run.
\<close>

lemma email_pattern_test_iff:
  "email_pattern_test s \<longleftrightarrow>
     (\<exists>p a b c q. s = p @ a @ CHR ''@'' # b @ CHR ''.'' # c @ q \<and>
        a \<noteq> [] \<and> b \<noteq> [] \<and> c \<noteq> [] \<and> list_all (\<lambda>x. \<not> is_space x) (a @ b @ c))"
  (is "_ \<longleftrightarrow> ?R")
proof
  assume "email_pattern_test s"
  then have "email_scan_spec s"
    unfolding email_pattern_test_def email_scan_iff by simp
  then obtain p x rest where s: "s = p @ x # CHR ''@'' # rest" and x: "\<not> is_space x"
    and r: "after_at False rest"
    unfolding email_scan_spec_def by blast
  from r obtain b c q where rest: "rest = b @ CHR ''.'' # c @ q" and b: "b \<noteq> []"
    and c: "c \<noteq> []" and ns: "list_all (\<lambda>x. \<not> is_space x) (b @ c)"
    unfolding after_at_iff after_at_spec_def by blast
  have "s = p @ [x] @ CHR ''@'' # b @ CHR ''.'' # c @ q \<and>
      [x] \<noteq> [] \<and> b \<noteq> [] \<and> c \<noteq> [] \<and> list_all (\<lambda>x. \<not> is_space x) ([x] @ b @ c)"
    using s rest b c ns x by simp
  then show ?R by blast
next
  assume ?R
  then obtain p a b c q where s: "s = p @ a @ CHR ''@'' # b @ CHR ''.'' # c @ q"
    and a: "a \<noteq> []" and b: "b \<noteq> []" and c: "c \<noteq> []"
    and ns: "list_all (\<lambda>x. \<not> is_space x) (a @ b @ c)"
    by blast
  from a obtain a' x where ax: "a = a' @ [x]"
    by (cases a rule: rev_cases) auto
  from ns have nbc: "list_all (\<lambda>x. \<not> is_space x) (b @ c)" by simp
  have "after_at_spec False (b @ CHR ''.'' # c @ q)"
    by (rule after_at_specI [where b = b and c = c and q = q]) (use b c nbc in simp_all)
  then have r: "after_at False (b @ CHR ''.'' # c @ q)"
    unfolding after_at_iff .
  from ns ax have x: "\<not> is_space x" by simp
  have "s = (p @ a') @ x # CHR ''@'' # (b @ CHR ''.'' # c @ q)"
    using s ax by simp
  then have "email_scan_spec s" using x r by (rule email_scan_specI)
  then show "email_pattern_test s"
    unfolding email_pattern_test_def email_scan_iff by simp
qed


section \<open>The course selector's list\<close>

lemma str_includes_sublist: "str_includes s q = sublist q s"
  by (induction s) (auto simp: sublist_Cons_right)

text \<open>
  C10. With a search query that is not empty after trimming, the displayed courses are
  the courses whose lower-cased code contains the trimmed, lower-cased query as a
  substring, in the list's order; otherwise they are the first
  \<open>min visibleCourseCount (length courses)\<close> courses. A scroll never lowers the visible
  count and never raises it beyond the length of the list, and the displayed list is
  always a subsequence of the fetched one.
\<close>

theorem C10_displayed_courses:
  "filteredAndDisplayedCourses courses q n =
     (if trim q \<noteq> []
      then filter (\<lambda>c. sublist (toLowerCase (trim q)) (toLowerCase c)) courses
      else take (min n (length courses)) courses) \<and>
   n \<le> handleCourseScroll courses q target n \<and>
   handleCourseScroll courses q target n \<le> max n (length courses) \<and>
   subseq (filteredAndDisplayedCourses courses q n) courses"
proof -
  have 1: "filteredAndDisplayedCourses courses q n =
     (if trim q \<noteq> []
      then filter (\<lambda>c. sublist (toLowerCase (trim q)) (toLowerCase c)) courses
      else take (min n (length courses)) courses)"
    by (simp add: filteredAndDisplayedCourses_def toLowerCase_def str_includes_sublist min_def)
  have 2: "n \<le> handleCourseScroll courses q target n"
    by (simp add: handleCourseScroll_def)
  have 3: "handleCourseScroll courses q target n \<le> max n (length courses)"
    by (simp add: handleCourseScroll_def)
  have 4: "subseq (filteredAndDisplayedCourses courses q n) courses"
    unfolding 1 by (simp add: sublist_imp_subseq)
  from 1 2 3 4 show ?thesis by blast
qed


section \<open>The watch flow\<close>

lemma ui_inv_initial: "ui_inv initial_watch_ui"
  by (simp add: ui_inv_def initial_watch_ui_def email_valid_def trim_def)

lemma rendered_row_disabled:
  "row \<in> set (rendered_rows st) \<Longrightarrow>
   isWatchDisabled row = (open_seats (row_section row) > 0 \<or> isPending st)"
  by (auto simp: rendered_rows_def SectionBlock_rows_def)

lemma click_row_inv:
  assumes "ui_inv st" and "row \<in> set (rendered_rows st)"
  shows "ui_inv (click_row row st)"
proof (cases "isWatchDisabled row")
  case True
  with assms show ?thesis by (simp add: click_row_def)
next
  case False
  with rendered_row_disabled [OF assms(2)] have "open_seats (row_section row) \<le> 0"
    by simp
  with assms(1) False show ?thesis
    by (simp add: click_row_def handleWatchClick_def ui_inv_def)
qed

lemma onSuccess_inv: "ui_inv st \<Longrightarrow> ui_inv (onSuccess d st)"
  by (auto simp: onSuccess_def ui_inv_def split: sum.splits)

lemma ui_step_inv: "ui_inv st \<Longrightarrow> ui_inv (fst (ui_step base st ev))"
proof (cases ev)
  case (ClickRow i)
  assume "ui_inv st"
  then show ?thesis using ClickRow click_row_inv [of st "rendered_rows st ! i"]
    by simp
next
  case (MutationSucceeded d)
  assume "ui_inv st"
  then show ?thesis using MutationSucceeded by (simp add: onSuccess_inv)
qed (auto simp: ui_inv_def setEmail_def Let_def)

lemma ui_run_Cons:
  "fst (ui_run base st (ev # evs)) = fst (ui_run base (fst (ui_step base st ev)) evs)"
  "snd (ui_run base st (ev # evs)) =
     snd (ui_step base st ev) @ snd (ui_run base (fst (ui_step base st ev)) evs)"
  by (simp_all add: case_prod_unfold Let_def)

lemma ui_run_inv: "ui_inv st \<Longrightarrow> ui_inv (fst (ui_run base st evs))"
proof (induction evs arbitrary: st)
  case Nil
  then show ?case by simp
next
  case (Cons ev evs)
  from Cons.prems have "ui_inv (fst (ui_step base st ev))" by (rule ui_step_inv)
  from Cons.IH [OF this] show ?case
    by (simp only: ui_run_Cons)
qed

lemma submit_form_cases:
  "submit_form base st =
     (if \<not> isValidEmail st then [Toast (ToastError ''Invalid Email'' ''Please enter a valid email address.'')]
      else if isPending st \<or> watchSection st = None then []
      else handleWatchSubmit base st (dialog_email st))"
  by (simp add: submit_form_def handleSubmit_def)

lemma handleWatchSubmit_fetch:
  "Fetch c \<in> set (handleWatchSubmit base st e) \<longleftrightarrow>
     (\<exists>s. watchSection st = Some s \<and> selectedTerm (sel st) \<noteq> [] \<and> selectedCourse (sel st) \<noteq> [] \<and>
        c = watch_fetch_call base
              \<lparr>email = e, term_id = selectedTerm (sel st),
               course_code = selectedCourse (sel st), section_key = key s\<rparr>)"
  by (auto simp: handleWatchSubmit_def split: option.splits)

lemma submit_form_fetch:
  "Fetch c \<in> set (submit_form base st) \<longleftrightarrow>
     (isValidEmail st \<and> \<not> isPending st \<and>
      (\<exists>s. watchSection st = Some s \<and> selectedTerm (sel st) \<noteq> [] \<and> selectedCourse (sel st) \<noteq> [] \<and>
        c = watch_fetch_call base
              \<lparr>email = dialog_email st, term_id = selectedTerm (sel st),
               course_code = selectedCourse (sel st), section_key = key s\<rparr>))"
  unfolding submit_form_cases by (auto simp: handleWatchSubmit_fetch)

lemma ui_step_fetch:
  "Fetch c \<in> set (snd (ui_step base st ev)) \<Longrightarrow> ev = SubmitForm \<and> Fetch c \<in> set (submit_form base st)"
  by (cases ev) (auto simp: Let_def onSuccess_effects_def onError_effects_def split: sum.splits if_splits)

lemma ui_run_fetch:
  "Fetch c \<in> set (snd (ui_run base st evs)) \<Longrightarrow> ui_inv st \<Longrightarrow>
   \<exists>st'. ui_inv st' \<and> Fetch c \<in> set (submit_form base st')"
proof (induction evs arbitrary: st)
  case Nil
  then show ?case by simp
next
  case (Cons ev evs)
  from Cons.prems(1) consider
      (now) "Fetch c \<in> set (snd (ui_step base st ev))"
    | (later) "Fetch c \<in> set (snd (ui_run base (fst (ui_step base st ev)) evs))"
    unfolding ui_run_Cons by auto
  then show ?case
  proof cases
    case now
    with ui_step_fetch Cons.prems(2) show ?thesis by blast
  next
    case later
    from Cons.prems(2) have "ui_inv (fst (ui_step base st ev))" by (rule ui_step_inv)
    from Cons.IH [OF later this] show ?thesis .
  qed
qed


lemma trim_Nil: "trim [] = []"
  by (simp add: trim_def)

lemma app_handleWatchSubmit_fetch:
  "Fetch c \<in> set (app_handleWatchSubmit base a) \<longleftrightarrow>
     (email_valid (watchEmail a) \<and>
      (\<exists>s. app_watchSection a = Some s \<and> app_selectedTerm a \<noteq> [] \<and> app_selectedCourse a \<noteq> [] \<and>
        c = watch_fetch_call base
              \<lparr>email = watchEmail a, term_id = app_selectedTerm a,
               course_code = app_selectedCourse a, section_key = key_rev1 s\<rparr>))"
  by (auto simp: app_handleWatchSubmit_def email_valid_def trim_Nil split: option.splits)

lemma list_ex_is_Fetch: "list_ex is_Fetch effs \<longleftrightarrow> (\<exists>c. Fetch c \<in> set effs)"
proof (induction effs)
  case Nil
  then show ?case by simp
next
  case (Cons eff effs)
  then show ?case by (cases eff) auto
qed

lemma submit_form_invalid:
  "\<not> isValidEmail st \<Longrightarrow>
   submit_form base st = [Toast (ToastError ''Invalid Email'' ''Please enter a valid email address.'')]"
  by (simp add: submit_form_cases)

lemma app_handleWatchSubmit_invalid:
  "\<not> email_valid (watchEmail a) \<Longrightarrow>
   app_handleWatchSubmit base a =
     [Toast (if trim (watchEmail a) = []
             then ToastWarning ''Email Required'' ''Please enter your email address.''
             else ToastError ''Invalid Email'' ''Please enter a valid email address.'')]"
  by (auto simp: app_handleWatchSubmit_def email_valid_def trim_Nil)

lemma app_inv_initial: "app_inv initial_app_state"
  by (simp add: app_inv_def initial_app_state_def)

lemma app_step_inv: "app_inv st \<Longrightarrow> app_inv (fst (app_step base st ev))"
  by (cases ev)
    (auto simp: app_inv_def app_click_row_def app_watch_disabled_def app_handleWatchClick_def
      Let_def)

lemma app_run_inv: "app_inv st \<Longrightarrow> app_inv (app_run base st evs)"
proof (induction evs arbitrary: st)
  case Nil
  then show ?case by simp
next
  case (Cons ev evs)
  from Cons.prems have "app_inv (fst (app_step base st ev))" by (rule app_step_inv)
  from Cons.IH [OF this] show ?case by simp
qed

lemma run_a:
  "fst (ui_run ''api'' initial_watch_ui
      [SelectTerm ''2251'', SelectCourse ''COMPSCI 1JC3'',
       DetailsChanged [(''LEC'',
         [\<lparr>block_type = ''LEC'', key = ''12345'', open_seats = 0, total_seats = 50,
           section_label = ''C01''\<rparr>])],
       ClickRow 0, TypeEmail ''a@b.c'']) =
      \<lparr>sel = \<lparr>selectedTerm = ''2251'', selectedCourse = ''COMPSCI 1JC3''\<rparr>,
       courseDetails = [(''LEC'',
             [\<lparr>block_type = ''LEC'', key = ''12345'', open_seats = 0, total_seats = 50,
               section_label = ''C01''\<rparr>])],
       watchSection = Some \<lparr>block_type = ''LEC'', key = ''12345'', open_seats = 0, total_seats = 50,
               section_label = ''C01''\<rparr>,
       isWatchDialogOpen = True, isPending = False, dialog_email = ''a@b.c'',
       isValidEmail = True\<rparr>"
    by (simp add: initial_watch_ui_def initial_selection_def setSelectedTerm_def
        setSelectedCourse_def rendered_rows_def SectionBlock_rows_def click_row_def
        handleWatchClick_def setEmail_def email_valid_def trim_def is_space_def
        email_pattern_test_def)

text \<open>
  C1 (as amended). Every row \<^verbatim>\<open>SectionBlock\<close> renders has its watch button disabled
  exactly when the section's \<open>open_seats\<close> is positive or a watch mutation is pending
  (and so has every row of \<^verbatim>\<open>App.tsx\<close>, with \<open>isSubmittingWatch\<close>); a click on a disabled
  button changes nothing, a click on an enabled one stores that row's section. In every
  state the watch flow reaches, in either revision, a submission that issues a request
  sends the key of the stored section, and that section's \<open>open_seats\<close>, as seen in the
  row when its button was clicked, is at most 0. The seat count is not looked at again
  when the form is submitted.
\<close>

theorem C1_watch_button:
  "map isWatchDisabled (SectionBlock_rows sections pending) =
     map (\<lambda>s. 0 < open_seats s \<or> pending) sections \<and>
   map row_section (SectionBlock_rows sections pending) = sections \<and>
   app_watch_disabled a r = (0 < open_seats_rev1 r \<or> isSubmittingWatch a) \<and>
   click_row row st =
     (if isWatchDisabled row then st
      else st\<lparr>watchSection := Some (row_section row), isWatchDialogOpen := True\<rparr>) \<and>
   app_click_row r a =
     (if app_watch_disabled a r then a
      else a\<lparr>app_watchSection := Some r, app_isWatchDialogOpen := True\<rparr>) \<and>
   (Fetch c \<in> set (submit_form base (fst (ui_run base initial_watch_ui evs))) \<longrightarrow>
      (\<exists>s. watchSection (fst (ui_run base initial_watch_ui evs)) = Some s \<and> open_seats s \<le> 0 \<and>
           c = watch_fetch_call base
                 \<lparr>email = dialog_email (fst (ui_run base initial_watch_ui evs)),
                  term_id = selectedTerm (sel (fst (ui_run base initial_watch_ui evs))),
                  course_code = selectedCourse (sel (fst (ui_run base initial_watch_ui evs))),
                  section_key = key s\<rparr>)) \<and>
   (Fetch c \<in> set (app_handleWatchSubmit base (app_run base initial_app_state aevs)) \<longrightarrow>
      (\<exists>s. app_watchSection (app_run base initial_app_state aevs) = Some s \<and>
           open_seats_rev1 s \<le> 0 \<and>
           c = watch_fetch_call base
                 \<lparr>email = watchEmail (app_run base initial_app_state aevs),
                  term_id = app_selectedTerm (app_run base initial_app_state aevs),
                  course_code = app_selectedCourse (app_run base initial_app_state aevs),
                  section_key = key_rev1 s\<rparr>))"
proof -
  define st' where "st' = fst (ui_run base initial_watch_ui evs)"
  define ast where "ast = app_run base initial_app_state aevs"
  have ainv: "app_inv ast"
    unfolding ast_def by (rule app_run_inv [OF app_inv_initial])
  have asub: "\<exists>s. app_watchSection ast = Some s \<and> open_seats_rev1 s \<le> 0 \<and>
           c = watch_fetch_call base
                 \<lparr>email = watchEmail ast, term_id = app_selectedTerm ast,
                  course_code = app_selectedCourse ast, section_key = key_rev1 s\<rparr>"
    if "Fetch c \<in> set (app_handleWatchSubmit base ast)"
  proof -
    from that obtain s where s: "app_watchSection ast = Some s"
      and c: "c = watch_fetch_call base
                 \<lparr>email = watchEmail ast, term_id = app_selectedTerm ast,
                  course_code = app_selectedCourse ast, section_key = key_rev1 s\<rparr>"
      unfolding app_handleWatchSubmit_fetch by blast
    from ainv s have "open_seats_rev1 s \<le> 0" by (simp add: app_inv_def)
    with s c show ?thesis by blast
  qed
  have inv: "ui_inv st'"
    unfolding st'_def by (rule ui_run_inv [OF ui_inv_initial])
  have rows: "map isWatchDisabled (SectionBlock_rows sections pending) =
      map (\<lambda>s. 0 < open_seats s \<or> pending) sections"
    "map row_section (SectionBlock_rows sections pending) = sections"
    by (simp_all add: SectionBlock_rows_def comp_def)
  have app: "app_watch_disabled a r = (0 < open_seats_rev1 r \<or> isSubmittingWatch a)"
    by (simp add: app_watch_disabled_def)
  have click: "click_row row st =
     (if isWatchDisabled row then st
      else st\<lparr>watchSection := Some (row_section row), isWatchDialogOpen := True\<rparr>)"
    by (simp add: click_row_def handleWatchClick_def)
  have app_click: "app_click_row r a =
     (if app_watch_disabled a r then a
      else a\<lparr>app_watchSection := Some r, app_isWatchDialogOpen := True\<rparr>)"
    by (simp add: app_click_row_def app_handleWatchClick_def)
  have sub: "\<exists>s. watchSection st' = Some s \<and> open_seats s \<le> 0 \<and>
           c = watch_fetch_call base
                 \<lparr>email = dialog_email st', term_id = selectedTerm (sel st'),
                  course_code = selectedCourse (sel st'), section_key = key s\<rparr>"
    if "Fetch c \<in> set (submit_form base st')"
  proof -
    from that obtain s where s: "watchSection st' = Some s"
      and c: "c = watch_fetch_call base
                 \<lparr>email = dialog_email st', term_id = selectedTerm (sel st'),
                  course_code = selectedCourse (sel st'), section_key = key s\<rparr>"
      unfolding submit_form_fetch by blast
    from inv s have "open_seats s \<le> 0" by (simp add: ui_inv_def)
    with s c show ?thesis by blast
  qed
  from rows app click app_click sub asub show ?thesis
    unfolding st'_def ast_def by blast
qed

text \<open>
  Runs for C1, one in each revision: the watch button of a full section is clicked, an
  address typed, and the submission sends that section's key.
\<close>

theorem C1_watch_button_witness:
  "Fetch (watch_fetch_call ''api''
       \<lparr>email = ''a@b.c'', term_id = ''2251'',
        course_code = ''COMPSCI 1JC3'', section_key = ''12345''\<rparr>)
     \<in> set (submit_form ''api'' (fst (ui_run ''api'' initial_watch_ui
          [SelectTerm ''2251'', SelectCourse ''COMPSCI 1JC3'',
           DetailsChanged [(''LEC'',
             [\<lparr>block_type = ''LEC'', key = ''12345'', open_seats = 0, total_seats = 50,
               section_label = ''C01''\<rparr>])],
           ClickRow 0, TypeEmail ''a@b.c'']))) \<and>
   (\<exists>s. watchSection (fst (ui_run ''api'' initial_watch_ui
          [SelectTerm ''2251'', SelectCourse ''COMPSCI 1JC3'',
           DetailsChanged [(''LEC'',
             [\<lparr>block_type = ''LEC'', key = ''12345'', open_seats = 0, total_seats = 50,
               section_label = ''C01''\<rparr>])],
           ClickRow 0, TypeEmail ''a@b.c''])) = Some s \<and> open_seats s \<le> 0) \<and>
   Fetch (watch_fetch_call ''api''
       \<lparr>email = ''a@b.c'', term_id = ''2251'',
        course_code = ''COMPSCI 1JC3'', section_key = ''12345''\<rparr>)
     \<in> set (app_handleWatchSubmit ''api'' (app_run ''api'' initial_app_state
          [AppTermChange ''2251'', AppCourseSelect ''COMPSCI 1JC3'',
           AppClickRow \<lparr>block_type_rev1 = ''LEC'', key_rev1 = ''12345'', open_seats_rev1 = 0,
             section_rev1 = ''C01''\<rparr>,
           AppTypeEmail ''a@b.c''])) \<and>
   (\<exists>s. app_watchSection (app_run ''api'' initial_app_state
          [AppTermChange ''2251'', AppCourseSelect ''COMPSCI 1JC3'',
           AppClickRow \<lparr>block_type_rev1 = ''LEC'', key_rev1 = ''12345'', open_seats_rev1 = 0,
             section_rev1 = ''C01''\<rparr>,
           AppTypeEmail ''a@b.c'']) = Some s \<and> open_seats_rev1 s \<le> 0)"
proof -
  let ?evs = "[SelectTerm ''2251'', SelectCourse ''COMPSCI 1JC3'',
           DetailsChanged [(''LEC'',
             [\<lparr>block_type = ''LEC'', key = ''12345'', open_seats = 0, total_seats = 50,
               section_label = ''C01''\<rparr>])],
           ClickRow 0, TypeEmail ''a@b.c'']"
  let ?aevs = "[AppTermChange ''2251'', AppCourseSelect ''COMPSCI 1JC3'',
           AppClickRow \<lparr>block_type_rev1 = ''LEC'', key_rev1 = ''12345'', open_seats_rev1 = 0,
             section_rev1 = ''C01''\<rparr>,
           AppTypeEmail ''a@b.c'']"
  let ?c = "watch_fetch_call ''api''
       \<lparr>email = ''a@b.c'', term_id = ''2251'',
        course_code = ''COMPSCI 1JC3'', section_key = ''12345''\<rparr>"
  have h: "Fetch ?c \<in> set (submit_form ''api'' (fst (ui_run ''api'' initial_watch_ui ?evs)))"
    unfolding run_a by (simp add: submit_form_def handleSubmit_def handleWatchSubmit_def)
  have ast: "app_run ''api'' initial_app_state ?aevs =
      \<lparr>app_selectedTerm = ''2251'', app_selectedCourse = ''COMPSCI 1JC3'',
       app_watchSection = Some \<lparr>block_type_rev1 = ''LEC'', key_rev1 = ''12345'',
         open_seats_rev1 = 0, section_rev1 = ''C01''\<rparr>,
       watchEmail = ''a@b.c'', app_isWatchDialogOpen = True, isSubmittingWatch = False\<rparr>"
    by (simp add: initial_app_state_def app_click_row_def app_watch_disabled_def
        app_handleWatchClick_def)
  have ah: "Fetch ?c \<in> set (app_handleWatchSubmit ''api'' (app_run ''api'' initial_app_state ?aevs))"
    unfolding ast
    by (simp add: app_handleWatchSubmit_def trim_def is_space_def email_pattern_test_def)
  note T = C1_watch_button [where c = ?c and base = "''api''" and evs = ?evs and aevs = ?aevs
      and sections = "[]" and pending = False and a = initial_app_state
      and r = "\<lparr>block_type_rev1 = [], key_rev1 = [], open_seats_rev1 = 0, section_rev1 = []\<rparr>"
      and row = "\<lparr>row_section = \<lparr>block_type = [], key = [], open_seats = 0, total_seats = 0,
          section_label = []\<rparr>, isWatchDisabled = False, isWatchMutationPending = False\<rparr>"
      and st = initial_watch_ui]
  from T h ah show ?thesis
    by blast
qed

text \<open>
  C1 as stated fails: after the watch button of a full section was clicked, the details
  query delivers new data that show the same section with 3 open seats; the form still
  submits the request for it.
\<close>

theorem C1_refresh_counterexample:
  "submit_form ''api'' (fst (ui_run ''api'' initial_watch_ui
      [SelectTerm ''2251'', SelectCourse ''COMPSCI 1JC3'',
       DetailsChanged [(''LEC'',
         [\<lparr>block_type = ''LEC'', key = ''12345'', open_seats = 0, total_seats = 50,
           section_label = ''C01''\<rparr>])],
       ClickRow 0, TypeEmail ''a@b.c'',
       DetailsChanged [(''LEC'',
         [\<lparr>block_type = ''LEC'', key = ''12345'', open_seats = 3, total_seats = 50,
           section_label = ''C01''\<rparr>])]])) =
     [Fetch (watch_fetch_call ''api''
        \<lparr>email = ''a@b.c'', term_id = ''2251'',
         course_code = ''COMPSCI 1JC3'', section_key = ''12345''\<rparr>)] \<and>
   observed_open (fst (ui_run ''api'' initial_watch_ui
      [SelectTerm ''2251'', SelectCourse ''COMPSCI 1JC3'',
       DetailsChanged [(''LEC'',
         [\<lparr>block_type = ''LEC'', key = ''12345'', open_seats = 0, total_seats = 50,
           section_label = ''C01''\<rparr>])],
       ClickRow 0, TypeEmail ''a@b.c'',
       DetailsChanged [(''LEC'',
         [\<lparr>block_type = ''LEC'', key = ''12345'', open_seats = 3, total_seats = 50,
           section_label = ''C01''\<rparr>])]])) ''12345''"
proof -
  have st: "fst (ui_run ''api'' initial_watch_ui
      [SelectTerm ''2251'', SelectCourse ''COMPSCI 1JC3'',
       DetailsChanged [(''LEC'',
         [\<lparr>block_type = ''LEC'', key = ''12345'', open_seats = 0, total_seats = 50,
           section_label = ''C01''\<rparr>])],
       ClickRow 0, TypeEmail ''a@b.c'',
       DetailsChanged [(''LEC'',
         [\<lparr>block_type = ''LEC'', key = ''12345'', open_seats = 3, total_seats = 50,
           section_label = ''C01''\<rparr>])]]) =
      \<lparr>sel = \<lparr>selectedTerm = ''2251'', selectedCourse = ''COMPSCI 1JC3''\<rparr>,
       courseDetails = [(''LEC'',
             [\<lparr>block_type = ''LEC'', key = ''12345'', open_seats = 3, total_seats = 50,
               section_label = ''C01''\<rparr>])],
       watchSection = Some \<lparr>block_type = ''LEC'', key = ''12345'', open_seats = 0, total_seats = 50,
               section_label = ''C01''\<rparr>,
       isWatchDialogOpen = True, isPending = False, dialog_email = ''a@b.c'',
       isValidEmail = True\<rparr>"
    by (simp add: initial_watch_ui_def initial_selection_def setSelectedTerm_def
        setSelectedCourse_def rendered_rows_def SectionBlock_rows_def click_row_def
        handleWatchClick_def setEmail_def email_valid_def trim_def is_space_def
        email_pattern_test_def)
  show ?thesis
    unfolding st
    by (simp add: submit_form_def handleSubmit_def handleWatchSubmit_def observed_open_def)
qed

text \<open>
  C5. An address passes the check when it is not empty after trimming and contains a
  match of \<^verbatim>\<open>\S+@\S+\.\S+\<close>. In every state the watch dialog reaches, a submission
  issues a request only when the entered address passes, and for an address that fails
  \<^verbatim>\<open>handleSubmit\<close> issues no request and reports it with the error toast "Invalid Email".
  \<^verbatim>\<open>handleWatchSubmit\<close> of \<^verbatim>\<open>App.tsx\<close> issues a request only when the address passes as
  well; for one that fails it issues none and reports it with the toast "Email Required"
  when the address is empty after trimming and with the toast "Invalid Email" otherwise.
\<close>

theorem C5_email_check:
  "email_valid e =
     (trim e \<noteq> [] \<and>
      (\<exists>p a b c q. e = p @ a @ CHR ''@'' # b @ CHR ''.'' # c @ q \<and>
         a \<noteq> [] \<and> b \<noteq> [] \<and> c \<noteq> [] \<and> list_all (\<lambda>x. \<not> is_space x) (a @ b @ c))) \<and>
   (list_ex is_Fetch (submit_form base (fst (ui_run base initial_watch_ui evs))) \<longrightarrow>
      email_valid (dialog_email (fst (ui_run base initial_watch_ui evs)))) \<and>
   (\<not> email_valid (dialog_email (fst (ui_run base initial_watch_ui evs))) \<longrightarrow>
      submit_form base (fst (ui_run base initial_watch_ui evs)) =
        [Toast (ToastError ''Invalid Email'' ''Please enter a valid email address.'')]) \<and>
   (list_ex is_Fetch (app_handleWatchSubmit base st) \<longrightarrow> email_valid (watchEmail st)) \<and>
   (\<not> email_valid (watchEmail st) \<longrightarrow>
      app_handleWatchSubmit base st =
        [Toast (if trim (watchEmail st) = []
                then ToastWarning ''Email Required'' ''Please enter your email address.''
                else ToastError ''Invalid Email'' ''Please enter a valid email address.'')])"
proof -
  define st' where "st' = fst (ui_run base initial_watch_ui evs)"
  have inv: "isValidEmail st' = email_valid (dialog_email st')"
    using ui_run_inv [OF ui_inv_initial, of base evs] unfolding st'_def ui_inv_def by blast
  have 0: "email_valid e =
     (trim e \<noteq> [] \<and>
      (\<exists>p a b c q. e = p @ a @ CHR ''@'' # b @ CHR ''.'' # c @ q \<and>
         a \<noteq> [] \<and> b \<noteq> [] \<and> c \<noteq> [] \<and> list_all (\<lambda>x. \<not> is_space x) (a @ b @ c)))"
    unfolding email_valid_def email_pattern_test_iff ..
  have 1: "email_valid (dialog_email st')" if "list_ex is_Fetch (submit_form base st')"
    using that inv unfolding list_ex_is_Fetch submit_form_fetch by blast
  have 2: "submit_form base st' =
        [Toast (ToastError ''Invalid Email'' ''Please enter a valid email address.'')]"
    if "\<not> email_valid (dialog_email st')"
    using that inv by (simp add: submit_form_invalid)
  have 3: "email_valid (watchEmail st)" if "list_ex is_Fetch (app_handleWatchSubmit base st)"
    using that unfolding list_ex_is_Fetch app_handleWatchSubmit_fetch by blast
  note 4 = app_handleWatchSubmit_invalid [of st base]
  from 0 1 2 3 4 show ?thesis
    unfolding st'_def by blast
qed

text \<open>
  Runs for C5: a valid address is submitted; an address without an at sign is refused by
  the dialog, and one without a dot after the at sign by \<^verbatim>\<open>App.tsx\<close>.
\<close>

theorem C5_email_check_witness:
  "list_ex is_Fetch (submit_form ''api'' (fst (ui_run ''api'' initial_watch_ui
      [SelectTerm ''2251'', SelectCourse ''COMPSCI 1JC3'',
       DetailsChanged [(''LEC'',
         [\<lparr>block_type = ''LEC'', key = ''12345'', open_seats = 0, total_seats = 50,
           section_label = ''C01''\<rparr>])],
       ClickRow 0, TypeEmail ''a@b.c'']))) \<and>
   email_valid ''a@b.c'' \<and>
   \<not> email_valid ''nobody at home'' \<and>
   submit_form ''api'' (fst (ui_run ''api'' initial_watch_ui [TypeEmail ''nobody at home''])) =
     [Toast (ToastError ''Invalid Email'' ''Please enter a valid email address.'')] \<and>
   list_ex is_Fetch (app_handleWatchSubmit ''api''
     \<lparr>app_selectedTerm = ''2251'', app_selectedCourse = ''COMPSCI 1JC3'',
      app_watchSection = Some \<lparr>block_type_rev1 = ''LEC'', key_rev1 = ''12345'',
        open_seats_rev1 = 0, section_rev1 = ''C01''\<rparr>,
      watchEmail = ''a@b.c'', app_isWatchDialogOpen = True, isSubmittingWatch = False\<rparr>) \<and>
   app_handleWatchSubmit ''api''
     \<lparr>app_selectedTerm = ''2251'', app_selectedCourse = ''COMPSCI 1JC3'',
      app_watchSection = Some \<lparr>block_type_rev1 = ''LEC'', key_rev1 = ''12345'',
        open_seats_rev1 = 0, section_rev1 = ''C01''\<rparr>,
      watchEmail = ''a@b'', app_isWatchDialogOpen = True, isSubmittingWatch = False\<rparr> =
     [Toast (ToastError ''Invalid Email'' ''Please enter a valid email address.'')]"
proof -
  let ?evs = "[SelectTerm ''2251'', SelectCourse ''COMPSCI 1JC3'',
       DetailsChanged [(''LEC'',
         [\<lparr>block_type = ''LEC'', key = ''12345'', open_seats = 0, total_seats = 50,
           section_label = ''C01''\<rparr>])],
       ClickRow 0, TypeEmail ''a@b.c'']"
  let ?a = "\<lambda>e. \<lparr>app_selectedTerm = ''2251'', app_selectedCourse = ''COMPSCI 1JC3'',
      app_watchSection = Some \<lparr>block_type_rev1 = ''LEC'', key_rev1 = ''12345'',
        open_seats_rev1 = 0, section_rev1 = ''C01''\<rparr>,
      watchEmail = e, app_isWatchDialogOpen = True, isSubmittingWatch = False\<rparr>"
  have h1: "list_ex is_Fetch (submit_form ''api'' (fst (ui_run ''api'' initial_watch_ui ?evs)))"
    unfolding run_a by (simp add: submit_form_def handleSubmit_def handleWatchSubmit_def)
  have run_b: "dialog_email (fst (ui_run ''api'' initial_watch_ui [TypeEmail ''nobody at home''])) =
      ''nobody at home''"
    by (simp add: setEmail_def)
  have h2: "\<not> email_valid ''nobody at home''"
    by (simp add: email_valid_def email_pattern_test_def is_space_def)
  have h3: "list_ex is_Fetch (app_handleWatchSubmit ''api'' (?a ''a@b.c''))"
    by (simp add: app_handleWatchSubmit_def trim_def is_space_def email_pattern_test_def)
  have h4: "\<not> email_valid ''a@b''"
    by (simp add: email_valid_def email_pattern_test_def is_space_def)
  have t: "trim ''a@b'' \<noteq> []"
    by (simp add: trim_def is_space_def)
  note T1 = C5_email_check [of "[]" "''api''" ?evs "?a ''a@b.c''"]
  note T2 = C5_email_check [of "[]" "''api''" "[TypeEmail ''nobody at home'']" "?a ''a@b''"]
  have "email_valid (dialog_email (fst (ui_run ''api'' initial_watch_ui ?evs)))"
    by (rule T1 [THEN conjunct2, THEN conjunct1, THEN mp, OF h1])
  then have c1: "email_valid ''a@b.c''"
    unfolding run_a by simp
  have h2': "\<not> email_valid (dialog_email (fst (ui_run ''api'' initial_watch_ui [TypeEmail ''nobody at home''])))"
    unfolding run_b by (rule h2)
  have c2: "submit_form ''api'' (fst (ui_run ''api'' initial_watch_ui [TypeEmail ''nobody at home''])) =
     [Toast (ToastError ''Invalid Email'' ''Please enter a valid email address.'')]"
    by (rule T2 [THEN conjunct2, THEN conjunct2, THEN conjunct1, THEN mp, OF h2'])
  have h4': "\<not> email_valid (watchEmail (?a ''a@b''))"
    using h4 by simp
  have "app_handleWatchSubmit ''api'' (?a ''a@b'') =
     [Toast (if trim (watchEmail (?a ''a@b'')) = []
                then ToastWarning ''Email Required'' ''Please enter your email address.''
                else ToastError ''Invalid Email'' ''Please enter a valid email address.'')]"
    by (rule T2 [THEN conjunct2, THEN conjunct2, THEN conjunct2, THEN conjunct2, THEN mp, OF h4'])
  then have c3: "app_handleWatchSubmit ''api'' (?a ''a@b'') =
     [Toast (ToastError ''Invalid Email'' ''Please enter a valid email address.'')]"
    using t by simp
  from h1 c1 h2 c2 h3 c3 show ?thesis by blast
qed

text \<open>
  C6. Whenever a submit handler (\<^verbatim>\<open>handleWatchSubmit\<close> of \<^verbatim>\<open>CourseDetailsDisplay\<close>, the
  dialog's form on top of it, or \<^verbatim>\<open>handleWatchSubmit\<close> of \<^verbatim>\<open>App.tsx\<close>) issues a request, it is
  a POST to \<^verbatim>\<open>/watch\<close> whose body is the JSON text of the object with the four members
  \<open>email\<close>, \<open>term_id\<close>, \<open>course_code\<close>, \<open>section_key\<close>, in this order and no others,
  bound to the entered address, the selected term, the selected course and the key of
  the section chosen for watching. \<^verbatim>\<open>addWatchRequest\<close> makes this call and no other: its
  result depends on the network only through the outcome of this call.
\<close>

theorem C6_watch_payload:
  "(Fetch c \<in> set (handleWatchSubmit base st e) \<longrightarrow>
      (\<exists>s. watchSection st = Some s \<and>
         c = \<lparr>url = base @ ''/watch'', http_method = ''POST'',
              headers = [(''Content-Type'', ''application/json'')],
              request_body = Some (JSON_stringify (JObj
                [(''email'', JStr e), (''term_id'', JStr (selectedTerm (sel st))),
                 (''course_code'', JStr (selectedCourse (sel st))),
                 (''section_key'', JStr (key s))]))\<rparr>)) \<and>
   (Fetch c \<in> set (submit_form base st) \<longrightarrow>
      (\<exists>s. watchSection st = Some s \<and>
         c = \<lparr>url = base @ ''/watch'', http_method = ''POST'',
              headers = [(''Content-Type'', ''application/json'')],
              request_body = Some (JSON_stringify (JObj
                [(''email'', JStr (dialog_email st)), (''term_id'', JStr (selectedTerm (sel st))),
                 (''course_code'', JStr (selectedCourse (sel st))),
                 (''section_key'', JStr (key s))]))\<rparr>)) \<and>
   (Fetch c \<in> set (app_handleWatchSubmit base a) \<longrightarrow>
      (\<exists>s. app_watchSection a = Some s \<and>
         c = \<lparr>url = base @ ''/watch'', http_method = ''POST'',
              headers = [(''Content-Type'', ''application/json'')],
              request_body = Some (JSON_stringify (JObj
                [(''email'', JStr (watchEmail a)), (''term_id'', JStr (app_selectedTerm a)),
                 (''course_code'', JStr (app_selectedCourse a)),
                 (''section_key'', JStr (key_rev1 s))]))\<rparr>)) \<and>
   (net (watch_fetch_call base payload) = net' (watch_fetch_call base payload) \<longrightarrow>
      addWatchRequest net base payload = addWatchRequest net' base payload)"
proof -
  have call: "watch_fetch_call base \<lparr>email = x, term_id = t, course_code = cc, section_key = k\<rparr> =
      \<lparr>url = base @ ''/watch'', http_method = ''POST'',
       headers = [(''Content-Type'', ''application/json'')],
       request_body = Some (JSON_stringify (JObj
         [(''email'', JStr x), (''term_id'', JStr t), (''course_code'', JStr cc),
          (''section_key'', JStr k)]))\<rparr>" for x t cc k
    unfolding watch_fetch_call_def payload_object_def by simp
  have 1: "\<exists>s. watchSection st = Some s \<and>
         c = \<lparr>url = base @ ''/watch'', http_method = ''POST'',
              headers = [(''Content-Type'', ''application/json'')],
              request_body = Some (JSON_stringify (JObj
                [(''email'', JStr e), (''term_id'', JStr (selectedTerm (sel st))),
                 (''course_code'', JStr (selectedCourse (sel st))),
                 (''section_key'', JStr (key s))]))\<rparr>"
    if "Fetch c \<in> set (handleWatchSubmit base st e)"
    using that unfolding handleWatchSubmit_fetch call by blast
  have 2: "\<exists>s. watchSection st = Some s \<and>
         c = \<lparr>url = base @ ''/watch'', http_method = ''POST'',
              headers = [(''Content-Type'', ''application/json'')],
              request_body = Some (JSON_stringify (JObj
                [(''email'', JStr (dialog_email st)), (''term_id'', JStr (selectedTerm (sel st))),
                 (''course_code'', JStr (selectedCourse (sel st))),
                 (''section_key'', JStr (key s))]))\<rparr>"
    if "Fetch c \<in> set (submit_form base st)"
    using that unfolding submit_form_fetch call by blast
  have 3: "\<exists>s. app_watchSection a = Some s \<and>
         c = \<lparr>url = base @ ''/watch'', http_method = ''POST'',
              headers = [(''Content-Type'', ''application/json'')],
              request_body = Some (JSON_stringify (JObj
                [(''email'', JStr (watchEmail a)), (''term_id'', JStr (app_selectedTerm a)),
                 (''course_code'', JStr (app_selectedCourse a)),
                 (''section_key'', JStr (key_rev1 s))]))\<rparr>"
    if "Fetch c \<in> set (app_handleWatchSubmit base a)"
    using that unfolding app_handleWatchSubmit_fetch call by blast
  have 4: "addWatchRequest net base payload = addWatchRequest net' base payload"
    if "net (watch_fetch_call base payload) = net' (watch_fetch_call base payload)"
    using that by (simp add: addWatchRequest_def addWatchRequest_try_def)
  from 1 2 3 4 show ?thesis by blast
qed

text \<open>A run for C6: the request the dialog's form issues for a chosen section.\<close>

theorem C6_watch_payload_witness:
  "Fetch (watch_fetch_call ''api''
       \<lparr>email = ''a@b.c'', term_id = ''2251'',
        course_code = ''COMPSCI 1JC3'', section_key = ''12345''\<rparr>)
     \<in> set (submit_form ''api''
      \<lparr>sel = \<lparr>selectedTerm = ''2251'', selectedCourse = ''COMPSCI 1JC3''\<rparr>,
       courseDetails = [],
       watchSection = Some \<lparr>block_type = ''LEC'', key = ''12345'', open_seats = 0,
         total_seats = 50, section_label = ''C01''\<rparr>,
       isWatchDialogOpen = True, isPending = False, dialog_email = ''a@b.c'',
       isValidEmail = True\<rparr>) \<and>
   watch_fetch_call ''api''
       \<lparr>email = ''a@b.c'', term_id = ''2251'',
        course_code = ''COMPSCI 1JC3'', section_key = ''12345''\<rparr> =
     \<lparr>url = ''api/watch'', http_method = ''POST'',
      headers = [(''Content-Type'', ''application/json'')],
      request_body = Some (JSON_stringify (JObj
        [(''email'', JStr ''a@b.c''), (''term_id'', JStr ''2251''),
         (''course_code'', JStr ''COMPSCI 1JC3''), (''section_key'', JStr ''12345'')]))\<rparr>"
proof -
  let ?st = "\<lparr>sel = \<lparr>selectedTerm = ''2251'', selectedCourse = ''COMPSCI 1JC3''\<rparr>,
       courseDetails = [],
       watchSection = Some \<lparr>block_type = ''LEC'', key = ''12345'', open_seats = 0,
         total_seats = 50, section_label = ''C01''\<rparr>,
       isWatchDialogOpen = True, isPending = False, dialog_email = ''a@b.c'',
       isValidEmail = True\<rparr>"
  let ?c = "watch_fetch_call ''api''
       \<lparr>email = ''a@b.c'', term_id = ''2251'',
        course_code = ''COMPSCI 1JC3'', section_key = ''12345''\<rparr>"
  have h: "Fetch ?c \<in> set (submit_form ''api'' ?st)"
    by (simp add: submit_form_def handleSubmit_def handleWatchSubmit_def)
  note T = C6_watch_payload [of ?c "''api''" ?st "[]"
      "\<lparr>app_selectedTerm = [], app_selectedCourse = [], app_watchSection = None,
        watchEmail = [], app_isWatchDialogOpen = False, isSubmittingWatch = False\<rparr>"
      "\<lambda>c. Inl failed_to_fetch"
      "\<lparr>email = [], term_id = [], course_code = [], section_key = []\<rparr>"
      "\<lambda>c. Inl failed_to_fetch"]
  from T [THEN conjunct2, THEN conjunct1, THEN mp, OF h]
  have "?c = \<lparr>url = ''api/watch'', http_method = ''POST'',
      headers = [(''Content-Type'', ''application/json'')],
      request_body = Some (JSON_stringify (JObj
        [(''email'', JStr ''a@b.c''), (''term_id'', JStr ''2251''),
         (''course_code'', JStr ''COMPSCI 1JC3''), (''section_key'', JStr ''12345'')]))\<rparr>"
    by simp
  with h show ?thesis by blast
qed


section \<open>The API client\<close>

lemma js_member_not_null:
  "v \<noteq> JNull \<Longrightarrow> \<exists>m. js_member n v = Inr m"
  by (cases v) simp_all

lemma converts_text: "converts v \<Longrightarrow> \<exists>s. js_ToString v = Inr s"
  unfolding converts_def by (cases "js_ToString v") simp_all

lemma or_else_text:
  assumes "\<And>v. m = Some v \<Longrightarrow> converts v"
  shows "\<exists>s. js_ToString (or_else m (JStr f)) = Inr s"
proof (cases m)
  case None
  then show ?thesis by (simp add: or_else_def)
next
  case (Some v)
  with assms have "converts v" by simp
  then obtain s where "js_ToString v = Inr s" using converts_text by blast
  with Some show ?thesis by (simp add: or_else_def)
qed

lemma or_else_server_text:
  "t \<noteq> [] \<Longrightarrow> js_ToString (or_else (Some (JStr t)) (JStr f)) = Inr t"
  by (simp add: or_else_def)

text \<open>
  The part the handlers share: with an error body that is not \<^verbatim>\<open>null\<close> and whose member
  \<^verbatim>\<open>error\<close>, if any, converts to a string, reading the member and building the message
  both go through.
\<close>

lemma error_message_text:
  assumes "j \<noteq> JNull" and "error_converts (Some j)"
  shows "\<exists>m s. js_member ''error'' j = Inr m \<and> js_ToString (or_else m (JStr f)) = Inr s"
proof -
  from assms(1) obtain m where m: "js_member ''error'' j = Inr m"
    using js_member_not_null by blast
  with assms(2) have "converts v" if "m = Some v" for v
    using that by (simp add: error_converts_def)
  then obtain s where "js_ToString (or_else m (JStr f)) = Inr s"
    using or_else_text [of m f] by blast
  with m show ?thesis by blast
qed

text \<open>
  A response that is not OK, whose body is not \<^verbatim>\<open>null\<close> and whose member \<^verbatim>\<open>error\<close>, if any,
  converts to a string makes \<^verbatim>\<open>handleResponse\<close> throw an error with the response's status.
\<close>

lemma handleResponse_not_ok:
  assumes "\<not> response_ok r" and "body r \<noteq> Some JNull" and "error_converts (body r)"
  shows "\<exists>msg data. handleResponse r = Inl (ApiError msg (status r) data)"
proof (cases "body r")
  case None
  with assms(1) show ?thesis
    by (simp add: handleResponse_def response_json_def or_else_def)
next
  case (Some j)
  with assms(2,3) have "j \<noteq> JNull" "error_converts (Some j)" by simp_all
  then obtain m s where "js_member ''error'' j = Inr m"
    "js_ToString (or_else m (JStr (''HTTP error! status: '' @ show_nat (status r)))) = Inr s"
    using error_message_text by blast
  with Some assms(1) show ?thesis
    by (simp add: handleResponse_def response_json_def)
qed

lemma handleResponse_rev1_not_ok:
  assumes "\<not> response_ok r" and "body r \<noteq> Some JNull" and "error_converts (body r)"
  shows "\<exists>msg data. handleResponse_rev1 r = Inl (StatusError msg (status r) data)"
proof (cases "body r")
  case None
  with assms(1) show ?thesis
    by (simp add: handleResponse_rev1_def response_json_def or_else_def)
next
  case (Some j)
  with assms(2,3) have "j \<noteq> JNull" "error_converts (Some j)" by simp_all
  then obtain m s where "js_member ''error'' j = Inr m"
    "js_ToString (or_else m (JStr (''HTTP error! status: '' @ show_nat (status r)))) = Inr s"
    using error_message_text by blast
  with Some assms(1) show ?thesis
    by (simp add: handleResponse_rev1_def response_json_def)
qed

lemma not_ok_404: "status r = 404 \<Longrightarrow> \<not> response_ok r"
  by (simp add: response_ok_def)

text \<open>
  What holds of \<^verbatim>\<open>getCourses\<close> and \<^verbatim>\<open>getCourseDetails\<close> apart from an error body that is
  \<^verbatim>\<open>null\<close> or whose member \<^verbatim>\<open>error\<close> does not convert to a string: a 404 resolves with the
  empty value, and any other status that is not OK throws an \<^verbatim>\<open>ApiError\<close> (in the earlier
  revision a plain \<^verbatim>\<open>Error\<close>) with the response's status.
\<close>

lemma getCourses_statuses:
  assumes "net (fetch_get (base @ ''/terms/'' @ termId @ ''/courses'')) = Inr r"
  shows "status r = 404 \<Longrightarrow> getCourses net base termId = Inr (JArr [])"
    and "status r \<noteq> 404 \<Longrightarrow> \<not> response_ok r \<Longrightarrow> body r \<noteq> Some JNull \<Longrightarrow>
         error_converts (body r) \<Longrightarrow>
         \<exists>msg data. getCourses net base termId = Inl (ApiError msg (status r) data)"
    and "response_ok r \<Longrightarrow> body r = Some j \<Longrightarrow> getCourses net base termId = Inr j"
proof -
  show "status r = 404 \<Longrightarrow> getCourses net base termId = Inr (JArr [])"
    using assms by (simp add: getCourses_def)
  show "\<exists>msg data. getCourses net base termId = Inl (ApiError msg (status r) data)"
    if "status r \<noteq> 404" "\<not> response_ok r" "body r \<noteq> Some JNull" "error_converts (body r)"
    using assms that handleResponse_not_ok [of r] by (simp add: getCourses_def)
  show "getCourses net base termId = Inr j" if "response_ok r" "body r = Some j"
  proof -
    from that(1) have "status r \<noteq> 404" using not_ok_404 by blast
    with assms that show ?thesis
      by (simp add: getCourses_def handleResponse_def response_json_def)
  qed
qed

lemma getCourseDetails_statuses:
  assumes "net (fetch_get (base @ ''/terms/'' @ termId @ ''/courses/'' @ encodeURIComponent courseCode)) = Inr r"
  shows "status r = 404 \<Longrightarrow> getCourseDetails net base termId courseCode = Inr (JObj [])"
    and "status r \<noteq> 404 \<Longrightarrow> \<not> response_ok r \<Longrightarrow> body r \<noteq> Some JNull \<Longrightarrow>
         error_converts (body r) \<Longrightarrow>
         \<exists>msg data. getCourseDetails net base termId courseCode = Inl (ApiError msg (status r) data)"
    and "response_ok r \<Longrightarrow> body r = Some j \<Longrightarrow> getCourseDetails net base termId courseCode = Inr j"
proof -
  show "status r = 404 \<Longrightarrow> getCourseDetails net base termId courseCode = Inr (JObj [])"
    using assms by (simp add: getCourseDetails_def)
  show "\<exists>msg data. getCourseDetails net base termId courseCode = Inl (ApiError msg (status r) data)"
    if "status r \<noteq> 404" "\<not> response_ok r" "body r \<noteq> Some JNull" "error_converts (body r)"
    using assms that handleResponse_not_ok [of r] by (simp add: getCourseDetails_def)
  show "getCourseDetails net base termId courseCode = Inr j" if "response_ok r" "body r = Some j"
  proof -
    from that(1) have "status r \<noteq> 404" using not_ok_404 by blast
    with assms that show ?thesis
      by (simp add: getCourseDetails_def handleResponse_def response_json_def)
  qed
qed

lemma getCourses_rev1_statuses:
  assumes "net (fetch_get (base @ ''/courses/'' @ termId)) = Inr r"
  shows "status r = 404 \<Longrightarrow> getCourses_rev1 net base termId = Inr (JArr [])"
    and "status r \<noteq> 404 \<Longrightarrow> \<not> response_ok r \<Longrightarrow> body r \<noteq> Some JNull \<Longrightarrow>
         error_converts (body r) \<Longrightarrow>
         \<exists>msg data. getCourses_rev1 net base termId = Inl (StatusError msg (status r) data)"
proof -
  show "status r = 404 \<Longrightarrow> getCourses_rev1 net base termId = Inr (JArr [])"
    using assms by (simp add: getCourses_rev1_def)
  show "\<exists>msg data. getCourses_rev1 net base termId = Inl (StatusError msg (status r) data)"
    if "status r \<noteq> 404" "\<not> response_ok r" "body r \<noteq> Some JNull" "error_converts (body r)"
    using assms that handleResponse_rev1_not_ok [of r] by (simp add: getCourses_rev1_def)
qed

text \<open>
  The second failing input of the same kind: an error body whose member \<^verbatim>\<open>error\<close> is an
  object with a member \<^verbatim>\<open>toString\<close> makes the \<^verbatim>\<open>Error\<close> constructor throw.
\<close>

lemma handleResponse_toString_member:
  "handleResponse
     \<lparr>status = 400, statusText = ''BAD REQUEST'',
      body = Some (JObj [(''error'', JObj [(''toString'', JNum 1)])])\<rparr> = Inl convert_error"
  by (simp add: handleResponse_def response_ok_def response_json_def or_else_def)

lemma addWatchRequest_failure:
  assumes "net (watch_fetch_call base payload) = Inr r" and "\<not> response_ok r"
  shows "isl (addWatchRequest_try net base payload)"
  using assms
  by (auto simp: addWatchRequest_try_def Let_def split: sum.splits)

lemma addWatchRequest_not_ok:
  assumes "net (watch_fetch_call base payload) = Inr r" and "\<not> response_ok r"
  shows "isl (addWatchRequest net base payload)"
    and "body r \<noteq> Some JNull \<Longrightarrow> error_converts (body r) \<Longrightarrow>
         \<exists>msg data. addWatchRequest net base payload = Inl (ApiError msg (status r) data)"
    and "body r = Some (JObj fs) \<Longrightarrow> map_of fs ''error'' = Some (JStr m) \<Longrightarrow> m \<noteq> [] \<Longrightarrow>
         addWatchRequest net base payload = Inl (ApiError m (status r) (JObj fs))"
proof -
  from addWatchRequest_failure [where net = net and base = base and payload = payload, OF assms]
  show "isl (addWatchRequest net base payload)"
    by (cases "addWatchRequest_try net base payload") (simp_all add: addWatchRequest_def)
  show "\<exists>msg data. addWatchRequest net base payload = Inl (ApiError msg (status r) data)"
    if "body r \<noteq> Some JNull" "error_converts (body r)"
  proof (cases "body r")
    case None
    with assms show ?thesis
      by (simp add: addWatchRequest_def addWatchRequest_try_def response_json_def or_else_def)
  next
    case (Some j)
    with that have "j \<noteq> JNull" "error_converts (Some j)" by simp_all
    then obtain v s where "js_member ''error'' j = Inr v"
      "js_ToString (or_else v (JStr (''Request failed with status '' @ show_nat (status r)))) = Inr s"
      using error_message_text by blast
    with Some assms show ?thesis
      by (simp add: addWatchRequest_def addWatchRequest_try_def response_json_def)
  qed
  show "addWatchRequest net base payload = Inl (ApiError m (status r) (JObj fs))"
    if "body r = Some (JObj fs)" "map_of fs ''error'' = Some (JStr m)" "m \<noteq> []"
    using assms that
    by (simp add: addWatchRequest_def addWatchRequest_try_def response_json_def or_else_def)
qed

lemma addWatchRequest_ok:
  assumes "net (watch_fetch_call base payload) = Inr r" and "response_ok r" and "body r = Some j"
  shows "addWatchRequest net base payload = Inr j"
    and "addWatchRequest_rev1 net base payload = Inr j"
  using assms
  by (simp_all add: addWatchRequest_def addWatchRequest_try_def addWatchRequest_rev1_def
      addWatchRequest_rev1_try_def response_json_def)

lemma addWatchRequest_rev1_not_ok:
  assumes "net (watch_fetch_call base payload) = Inr r" and "\<not> response_ok r"
  shows "\<exists>v. addWatchRequest_rev1 net base payload = Inr (JObj [(''error'', v)])"
    and "body r = Some (JObj fs) \<Longrightarrow> map_of fs ''error'' = Some (JStr m) \<Longrightarrow> m \<noteq> [] \<Longrightarrow>
         addWatchRequest_rev1 net base payload = Inr (JObj [(''error'', JStr m)])"
proof -
  show "\<exists>v. addWatchRequest_rev1 net base payload = Inr (JObj [(''error'', v)])"
  proof (cases "body r")
    case None
    with assms show ?thesis
      by (simp add: addWatchRequest_rev1_def addWatchRequest_rev1_try_def response_json_def)
  next
    case (Some j)
    show ?thesis
    proof (cases "js_member ''error'' j")
      case (Inl e)
      then have "j = JNull" by (cases j) simp_all
      with Some assms show ?thesis
        by (simp add: addWatchRequest_rev1_def addWatchRequest_rev1_try_def response_json_def)
    next
      case (Inr v)
      with Some assms show ?thesis
        by (simp add: addWatchRequest_rev1_def addWatchRequest_rev1_try_def response_json_def)
    qed
  qed
  show "addWatchRequest_rev1 net base payload = Inr (JObj [(''error'', JStr m)])"
    if "body r = Some (JObj fs)" "map_of fs ''error'' = Some (JStr m)" "m \<noteq> []"
    using assms that
    by (simp add: addWatchRequest_rev1_def addWatchRequest_rev1_try_def response_json_def
        or_else_def)
qed

text \<open>
  C2 (as amended). When the Submit watch request is answered with a status that is not
  OK, neither revision of \<^verbatim>\<open>addWatchRequest\<close> yields a success value: the later one fails,
  the earlier one returns an object whose only member is \<open>error\<close>. Unless the body is the
  JSON value \<^verbatim>\<open>null\<close> or its member \<open>error\<close> does not convert to a string, the later
  revision throws an \<^verbatim>\<open>ApiError\<close> whose status is the response's; when the body is an
  object with a non-empty string member \<open>error\<close>, that string is the error's message in
  the later revision and the value of \<open>error\<close> in the earlier one, which carries no
  status. For an OK response whose body parses, both return the parsed body.
\<close>

theorem C2_addWatchRequest:
  assumes "net (watch_fetch_call base payload) = Inr r"
  shows
   "(\<not> response_ok r \<longrightarrow>
       isl (addWatchRequest net base payload) \<and>
       (\<exists>v. addWatchRequest_rev1 net base payload = Inr (JObj [(''error'', v)]))) \<and>
    (\<not> response_ok r \<and> body r \<noteq> Some JNull \<and> error_converts (body r) \<longrightarrow>
       (\<exists>msg data. addWatchRequest net base payload = Inl (ApiError msg (status r) data))) \<and>
    (\<not> response_ok r \<and> body r = Some (JObj fs) \<and> map_of fs ''error'' = Some (JStr m) \<and> m \<noteq> [] \<longrightarrow>
       addWatchRequest net base payload = Inl (ApiError m (status r) (JObj fs)) \<and>
       addWatchRequest_rev1 net base payload = Inr (JObj [(''error'', JStr m)])) \<and>
    (response_ok r \<and> body r = Some j \<longrightarrow>
       addWatchRequest net base payload = Inr j \<and>
       addWatchRequest_rev1 net base payload = Inr j)"
  using addWatchRequest_not_ok [where net = net and base = base and payload = payload, OF assms]
    addWatchRequest_rev1_not_ok [where net = net and base = base and payload = payload, OF assms]
    addWatchRequest_ok [where net = net and base = base and payload = payload, OF assms]
  by blast

text \<open>
  Runs for C2: a 409 with the server's message is thrown as an \<^verbatim>\<open>ApiError\<close> with status
  409, and a 201 returns its parsed body.
\<close>

theorem C2_addWatchRequest_witness:
  "addWatchRequest
     (\<lambda>c. Inr \<lparr>status = 409, statusText = ''CONFLICT'',
               body = Some (JObj [(''error'', JStr ''Watch request already exists'')])\<rparr>)
     ''api''
     \<lparr>email = ''a@b.c'', term_id = ''2251'', course_code = ''COMPSCI 1JC3'',
      section_key = ''12345''\<rparr> =
     Inl (ApiError ''Watch request already exists'' 409
            (JObj [(''error'', JStr ''Watch request already exists'')])) \<and>
   error_converts (Some (JObj [(''error'', JStr ''Watch request already exists'')])) \<and>
   addWatchRequest
     (\<lambda>c. Inr \<lparr>status = 201, statusText = ''CREATED'',
               body = Some (JObj [(''message'', JStr ''Watch request added'')])\<rparr>)
     ''api''
     \<lparr>email = ''a@b.c'', term_id = ''2251'', course_code = ''COMPSCI 1JC3'',
      section_key = ''12345''\<rparr> =
     Inr (JObj [(''message'', JStr ''Watch request added'')])"
proof -
  let ?p = "\<lparr>email = ''a@b.c'', term_id = ''2251'', course_code = ''COMPSCI 1JC3'',
      section_key = ''12345''\<rparr>"
  let ?fs = "[(''error'', JStr ''Watch request already exists'')]"
  let ?r1 = "\<lparr>status = 409, statusText = ''CONFLICT'', body = Some (JObj ?fs)\<rparr>"
  let ?j = "JObj [(''message'', JStr ''Watch request added'')]"
  let ?r2 = "\<lparr>status = 201, statusText = ''CREATED'', body = Some ?j\<rparr>"
  have n1: "(\<lambda>c. Inr ?r1) (watch_fetch_call ''api'' ?p) = Inr ?r1" by simp
  have n2: "(\<lambda>c. Inr ?r2) (watch_fetch_call ''api'' ?p) = Inr ?r2" by simp
  have h1: "\<not> response_ok ?r1 \<and> body ?r1 = Some (JObj ?fs) \<and>
      map_of ?fs ''error'' = Some (JStr ''Watch request already exists'') \<and>
      ''Watch request already exists'' \<noteq> []"
    by (simp add: response_ok_def)
  have h2: "response_ok ?r2 \<and> body ?r2 = Some ?j"
    by (simp add: response_ok_def)
  note T1 = C2_addWatchRequest [where net = "\<lambda>c. Inr ?r1" and base = "''api''" and payload = ?p
      and r = ?r1 and fs = ?fs and m = "''Watch request already exists''" and j = JNull, OF n1]
  note T2 = C2_addWatchRequest [where net = "\<lambda>c. Inr ?r2" and base = "''api''" and payload = ?p
      and r = ?r2 and fs = "[]" and m = "[]" and j = ?j, OF n2]
  have c1: "addWatchRequest (\<lambda>c. Inr ?r1) ''api'' ?p =
      Inl (ApiError ''Watch request already exists'' (status ?r1) (JObj ?fs))"
    by (rule T1 [THEN conjunct2, THEN conjunct2, THEN conjunct1, THEN mp, OF h1, THEN conjunct1])
  have c2: "addWatchRequest (\<lambda>c. Inr ?r2) ''api'' ?p = Inr ?j"
    by (rule T2 [THEN conjunct2, THEN conjunct2, THEN conjunct2, THEN mp, OF h2, THEN conjunct1])
  have h3: "error_converts (Some (JObj ?fs))"
    by (simp add: error_converts_def converts_def)
  from c1 c2 h3 show ?thesis by simp
qed

text \<open>
  C2 as stated fails for the earlier revision: answered with 409, it returns the value
  \<^verbatim>\<open>{ error: ... }\<close>, which carries no status code.
\<close>

theorem C2_rev1_status_counterexample:
  "\<not> response_ok \<lparr>status = 409, statusText = ''CONFLICT'',
        body = Some (JObj [(''error'', JStr ''Watch request already exists'')])\<rparr> \<and>
   addWatchRequest_rev1
     (\<lambda>c. Inr \<lparr>status = 409, statusText = ''CONFLICT'',
               body = Some (JObj [(''error'', JStr ''Watch request already exists'')])\<rparr>)
     ''api''
     \<lparr>email = ''a@b.c'', term_id = ''2251'', course_code = ''COMPSCI 1JC3'',
      section_key = ''12345''\<rparr> =
     Inr (JObj [(''error'', JStr ''Watch request already exists'')]) \<and>
   \<not> carries_status
     (addWatchRequest_rev1
        (\<lambda>c. Inr \<lparr>status = 409, statusText = ''CONFLICT'',
                  body = Some (JObj [(''error'', JStr ''Watch request already exists'')])\<rparr>)
        ''api''
        \<lparr>email = ''a@b.c'', term_id = ''2251'', course_code = ''COMPSCI 1JC3'',
         section_key = ''12345''\<rparr>) 409"
  by (simp add: addWatchRequest_rev1_def addWatchRequest_rev1_try_def response_ok_def
      response_json_def or_else_def carries_status_def)

text \<open>
  C3 at the failing input. A response with status 500 whose body is the JSON value
  \<^verbatim>\<open>null\<close> makes \<^verbatim>\<open>getCourses\<close> and \<^verbatim>\<open>getCourseDetails\<close> fail with the engine's
  \<^verbatim>\<open>TypeError\<close> (reading \<^verbatim>\<open>errorData.error\<close> of \<^verbatim>\<open>null\<close>), which is no \<^verbatim>\<open>ApiError\<close> and has no
  status.
\<close>

theorem C3_null_body_error:
  "getCourses
     (\<lambda>c. Inr \<lparr>status = 500, statusText = ''INTERNAL SERVER ERROR'', body = Some JNull\<rparr>)
     ''api'' ''2251'' = Inl (TypeError null_member_message) \<and>
   getCourseDetails
     (\<lambda>c. Inr \<lparr>status = 500, statusText = ''INTERNAL SERVER ERROR'', body = Some JNull\<rparr>)
     ''api'' ''2251'' ''COMPSCI 1JC3'' = Inl (TypeError null_member_message) \<and>
   \<not> is_ApiError (TypeError null_member_message) \<and>
   error_status (TypeError null_member_message) = None"
  by (simp add: getCourses_def getCourseDetails_def handleResponse_def response_ok_def
      response_json_def)

text \<open>
  C4 (as amended). The later declaration of \<^verbatim>\<open>CourseDetailsSection\<close> has the members
  \<open>block_type\<close>, \<open>key\<close>, \<open>section\<close> (strings) and \<open>open_seats\<close>, \<open>total_seats\<close> (numbers);
  the earlier declaration, in \<^verbatim>\<open>frontend/src/services/api.ts\<close>, has \<open>block_type\<close>, \<open>key\<close>,
  \<open>open_seats\<close> and \<open>section\<close> only.
\<close>

theorem C4_section_interface:
  "map_of CourseDetailsSection_interface ''block_type'' = Some TString \<and>
   map_of CourseDetailsSection_interface ''key'' = Some TString \<and>
   map_of CourseDetailsSection_interface ''section'' = Some TString \<and>
   map_of CourseDetailsSection_interface ''open_seats'' = Some TNumber \<and>
   map_of CourseDetailsSection_interface ''total_seats'' = Some TNumber \<and>
   map_of CourseDetailsSection_interface_rev1 ''block_type'' = Some TString \<and>
   map_of CourseDetailsSection_interface_rev1 ''key'' = Some TString \<and>
   map_of CourseDetailsSection_interface_rev1 ''section'' = Some TString \<and>
   map_of CourseDetailsSection_interface_rev1 ''open_seats'' = Some TNumber \<and>
   map fst CourseDetailsSection_interface_rev1 = [''block_type'', ''key'', ''open_seats'', ''section'']"
  by (simp add: CourseDetailsSection_interface_def CourseDetailsSection_interface_rev1_def)

text \<open>
  C4 as stated fails for the earlier declaration, which has no member \<open>total_seats\<close>.
\<close>

theorem C4_rev1_counterexample:
  "map_of CourseDetailsSection_interface_rev1 ''total_seats'' = None"
  by (simp add: CourseDetailsSection_interface_rev1_def)

section \<open>The terms list\<close>

lemma mset_insert_by: "mset (insert_by cmp x ys) = add_mset x (mset ys)"
  by (induction ys) simp_all

lemma set_insert_by: "set (insert_by cmp x ys) = insert x (set ys)"
  by (induction ys) auto

lemma sorted_insert_by:
  assumes total: "\<And>a b. cmp a b \<le> 0 \<or> cmp b a \<le> 0"
    and trans: "\<And>a b c. cmp a b \<le> 0 \<Longrightarrow> cmp b c \<le> 0 \<Longrightarrow> cmp a c \<le> 0"
  shows "sorted_wrt (\<lambda>a b. cmp a b \<le> 0) ys \<Longrightarrow>
         sorted_wrt (\<lambda>a b. cmp a b \<le> 0) (insert_by cmp x ys)"
proof (induction ys)
  case Nil
  then show ?case by simp
next
  case (Cons y ys)
  show ?case
  proof (cases "cmp x y \<le> 0")
    case True
    have "cmp x z \<le> 0" if "z \<in> set ys" for z
    proof -
      from Cons.prems that have "cmp y z \<le> 0" by simp
      with True show ?thesis by (rule trans)
    qed
    with True Cons.prems show ?thesis by simp
  next
    case False
    with total [of x y] have yx: "cmp y x \<le> 0" by blast
    from Cons.prems have "sorted_wrt (\<lambda>a b. cmp a b \<le> 0) ys" by simp
    then have "sorted_wrt (\<lambda>a b. cmp a b \<le> 0) (insert_by cmp x ys)" by (rule Cons.IH)
    with False yx Cons.prems show ?thesis by (simp add: set_insert_by)
  qed
qed

lemma mset_js_sort: "mset (js_sort cmp xs) = mset xs"
  by (induction xs) (simp_all add: js_sort_def mset_insert_by)

lemma sorted_js_sort:
  assumes "\<And>a b. cmp a b \<le> 0 \<or> cmp b a \<le> 0"
    and "\<And>a b c. cmp a b \<le> 0 \<Longrightarrow> cmp b c \<le> 0 \<Longrightarrow> cmp a c \<le> 0"
  shows "sorted_wrt (\<lambda>a b. cmp a b \<le> 0) (js_sort cmp xs)"
proof (induction xs)
  case Nil
  then show ?case by (simp add: js_sort_def)
next
  case (Cons x xs)
  have "sorted_wrt (\<lambda>a b. cmp a b \<le> 0) (insert_by cmp x (js_sort cmp xs))"
    using assms Cons.IH by (intro sorted_insert_by) blast+
  then show ?case by (simp add: js_sort_def)
qed

lemma sorted_last_greatest:
  assumes refl: "\<And>a. le a a" and "sorted_wrt le xs" and "x \<in> set xs"
  shows "le x (last xs)"
proof -
  from assms(3) have ne: "xs \<noteq> []" by auto
  then have xs: "xs = butlast xs @ [last xs]" by simp
  from assms(3) xs have "x \<in> set (butlast xs) \<or> x = last xs"
    by (metis Un_iff empty_iff empty_set insert_iff list.simps(15) set_append)
  then show ?thesis
  proof
    assume "x \<in> set (butlast xs)"
    moreover from assms(2) xs have "sorted_wrt le (butlast xs @ [last xs])" by simp
    ultimately show ?thesis by (simp add: sorted_wrt_append)
  next
    assume "x = last xs"
    with refl show ?thesis by simp
  qed
qed

lemma code_unit_compare_total: "code_unit_compare a b \<le> 0 \<or> code_unit_compare b a \<le> 0"
  by (induction a b rule: code_unit_compare.induct) auto

lemma code_unit_compare_trans:
  "code_unit_compare a b \<le> 0 \<Longrightarrow> code_unit_compare b c \<le> 0 \<Longrightarrow> code_unit_compare a c \<le> 0"
proof (induction a arbitrary: b c)
  case Nil
  then show ?case by (cases c) simp_all
next
  case (Cons x xs)
  from Cons.prems(1) obtain y ys where b: "b = y # ys" by (cases b) auto
  from Cons.prems(2) b obtain z zs where c: "c = z # zs" by (cases c) auto
  from Cons.prems b c show ?case
    using Cons.IH [of ys zs] by (auto split: if_splits)
qed

lemma consistent_code_unit_compare: "consistent_comparator code_unit_compare"
  unfolding consistent_comparator_def
  using code_unit_compare_total code_unit_compare_trans by blast

text \<open>
  C8. For a consistent \<^verbatim>\<open>localeCompare\<close> and an array resolved by the terms query, the
  select step returns a new array (its address is not the input's, nor any other
  allocated one), leaves every array of the store, the input among them, as it was, and
  the new array is a permutation of the input sorted in ascending order of the id under
  \<^verbatim>\<open>localeCompare\<close>; every id of the input is at most the id of its last element. For an
  input that is not an array it returns a new empty array. \<^verbatim>\<open>TermSelector\<close> then, when no
  term is selected and the list is not empty, selects the id of the last element.
\<close>

theorem C8_useTerms_select:
  assumes "consistent_comparator localeCompare" and "a < length h"
  shows
   "(case useTerms_select localeCompare h (ArrayAt a) of
       (h', b) \<Rightarrow>
         b = length h \<and> b \<noteq> a \<and> length h' = Suc (length h) \<and>
         take (length h) h' = h \<and> h' ! a = h ! a \<and>
         mset (h' ! b) = mset (h ! a) \<and>
         sorted_wrt (\<lambda>x y. localeCompare (term_ident x) (term_ident y) \<le> 0) (h' ! b) \<and>
         (\<forall>t \<in> set (h ! a).
            localeCompare (term_ident t) (term_ident (last (h' ! b))) \<le> 0)) \<and>
    useTerms_select localeCompare h NotAnArray = (h @ [[]], length h) \<and>
    TermSelector_effect s (Some ts) =
      (if selectedTerm s = [] \<and> ts \<noteq> [] then setSelectedTerm (term_ident (last ts)) s else s)"
proof -
  let ?cmp = "\<lambda>x y. localeCompare (term_ident x) (term_ident y)"
  let ?sorted = "js_sort ?cmp (h ! a)"
  from assms(1) have total: "\<And>x y. ?cmp x y \<le> 0 \<or> ?cmp y x \<le> 0"
    and trans: "\<And>x y z. ?cmp x y \<le> 0 \<Longrightarrow> ?cmp y z \<le> 0 \<Longrightarrow> ?cmp x z \<le> 0"
    unfolding consistent_comparator_def by blast+
  have sel: "useTerms_select localeCompare h (ArrayAt a) = (h @ [?sorted], length h)"
    by (simp add: useTerms_select_def alloc_def sort_in_place_def)
  have srt: "sorted_wrt (\<lambda>x y. ?cmp x y \<le> 0) ?sorted"
    by (rule sorted_js_sort [of ?cmp, OF total trans])
  have perm: "mset ?sorted = mset (h ! a)"
    by (rule mset_js_sort)
  have greatest: "?cmp t (last ?sorted) \<le> 0" if "t \<in> set (h ! a)" for t
  proof -
    from that perm have "t \<in> set ?sorted" by (metis set_mset_mset)
    moreover have "?cmp x x \<le> 0" for x :: Term using total [of x x] by simp
    ultimately show ?thesis
      using sorted_last_greatest [of "\<lambda>x y. ?cmp x y \<le> 0" ?sorted t] srt by blast
  qed
  have 1: "case useTerms_select localeCompare h (ArrayAt a) of
       (h', b) \<Rightarrow>
         b = length h \<and> b \<noteq> a \<and> length h' = Suc (length h) \<and>
         take (length h) h' = h \<and> h' ! a = h ! a \<and>
         mset (h' ! b) = mset (h ! a) \<and>
         sorted_wrt (\<lambda>x y. localeCompare (term_ident x) (term_ident y) \<le> 0) (h' ! b) \<and>
         (\<forall>t \<in> set (h ! a).
            localeCompare (term_ident t) (term_ident (last (h' ! b))) \<le> 0)"
    unfolding sel using srt perm greatest assms(2) by (simp add: nth_append)
  have 2: "useTerms_select localeCompare h NotAnArray = (h @ [[]], length h)"
    by (simp add: useTerms_select_def alloc_def)
  have 3: "TermSelector_effect s (Some ts) =
      (if selectedTerm s = [] \<and> ts \<noteq> [] then setSelectedTerm (term_ident (last ts)) s else s)"
    by (simp add: TermSelector_effect_def last_conv_nth)
  from 1 2 3 show ?thesis by blast
qed

text \<open>
  A run for C8: three terms are sorted by id into a new array, and the last, greatest id
  becomes the selection.
\<close>

theorem C8_useTerms_select_witness:
  "consistent_comparator code_unit_compare \<and>
   (0::nat) < length [[\<lparr>term_ident = ''2255'', term_name = ''Spring''\<rparr>,
                       \<lparr>term_ident = ''2251'', term_name = ''Winter''\<rparr>,
                       \<lparr>term_ident = ''2259'', term_name = ''Fall''\<rparr>]] \<and>
   useTerms_select code_unit_compare
     [[\<lparr>term_ident = ''2255'', term_name = ''Spring''\<rparr>,
       \<lparr>term_ident = ''2251'', term_name = ''Winter''\<rparr>,
       \<lparr>term_ident = ''2259'', term_name = ''Fall''\<rparr>]] (ArrayAt 0) =
     ([[\<lparr>term_ident = ''2255'', term_name = ''Spring''\<rparr>,
        \<lparr>term_ident = ''2251'', term_name = ''Winter''\<rparr>,
        \<lparr>term_ident = ''2259'', term_name = ''Fall''\<rparr>],
       [\<lparr>term_ident = ''2251'', term_name = ''Winter''\<rparr>,
        \<lparr>term_ident = ''2255'', term_name = ''Spring''\<rparr>,
        \<lparr>term_ident = ''2259'', term_name = ''Fall''\<rparr>]], 1) \<and>
   TermSelector_effect initial_selection
     (Some [\<lparr>term_ident = ''2251'', term_name = ''Winter''\<rparr>,
            \<lparr>term_ident = ''2255'', term_name = ''Spring''\<rparr>,
            \<lparr>term_ident = ''2259'', term_name = ''Fall''\<rparr>]) =
     \<lparr>selectedTerm = ''2259'', selectedCourse = []\<rparr>"
proof -
  let ?h = "[[\<lparr>term_ident = ''2255'', term_name = ''Spring''\<rparr>,
       \<lparr>term_ident = ''2251'', term_name = ''Winter''\<rparr>,
       \<lparr>term_ident = ''2259'', term_name = ''Fall''\<rparr>]]"
  let ?ts = "[\<lparr>term_ident = ''2251'', term_name = ''Winter''\<rparr>,
            \<lparr>term_ident = ''2255'', term_name = ''Spring''\<rparr>,
            \<lparr>term_ident = ''2259'', term_name = ''Fall''\<rparr>]"
  have len: "(0::nat) < length ?h" by simp
  have ev: "useTerms_select code_unit_compare ?h (ArrayAt 0) = (?h @ [?ts], 1)"
    by (simp add: useTerms_select_def alloc_def sort_in_place_def js_sort_def)
  note T = C8_useTerms_select [OF consistent_code_unit_compare len, of initial_selection ?ts]
  from T have "TermSelector_effect initial_selection (Some ?ts) =
      (if selectedTerm initial_selection = [] \<and> ?ts \<noteq> []
       then setSelectedTerm (term_ident (last ?ts)) initial_selection else initial_selection)"
    by (rule conjunct2 [THEN conjunct2])
  then have "TermSelector_effect initial_selection (Some ?ts) =
      \<lparr>selectedTerm = ''2259'', selectedCourse = []\<rparr>"
    by (simp add: initial_selection_def setSelectedTerm_def)
  with consistent_code_unit_compare len ev show ?thesis by simp
qed


section \<open>The watch registry's state machine\<close>

lemma allowed_change_iff:
  "allowed_change s s' \<longleftrightarrow> s' = s \<or> s = Active \<and> (s' = Notified \<or> s' = Deactivated)"
  by (cases s; cases s') simp_all

lemma allowed_change_refl: "allowed_change s s"
  by (cases s) simp_all

lemma allowed_change_trans:
  "allowed_change s s' \<Longrightarrow> allowed_change s' s'' \<Longrightarrow> allowed_change s s''"
  by (cases s; cases s') simp_all

lemma dispatch_row_allowed:
  "allowed_change (wr_status w) (wr_status (dispatch_row now store t c fresh w))"
  by (cases "wr_status w") (simp_all add: dispatch_row_def split: option.splits)

lemma engine_step_rows:
  assumes "i < length (registry eng)"
  shows "i < length (registry (fst (engine_step now eng op))) \<and>
         allowed_change (wr_status (registry eng ! i))
           (wr_status (registry (fst (engine_step now eng op)) ! i))"
proof (cases op)
  case (SubmitWatch e t c k)
  with assms show ?thesis
    by (simp add: submit_watch_def nth_append allowed_change_refl)
next
  case (CourseFetched t c fresh)
  with assms show ?thesis
    by (simp add: Let_def allowed_change_refl dispatch_row_allowed)
qed (use assms in \<open>simp_all add: allowed_change_refl\<close>)

lemma engine_step_new_rows:
  assumes "length (registry eng) \<le> i" and "i < length (registry (fst (engine_step now eng op)))"
  shows "wr_status (registry (fst (engine_step now eng op)) ! i) = Active"
proof (cases op)
  case (SubmitWatch e t c k)
  with assms show ?thesis
    by (auto simp: submit_watch_def nth_append less_Suc_eq split: if_splits)
next
  case (CourseFetched t c fresh)
  with assms show ?thesis
    by (simp add: Let_def split: if_splits)
qed (use assms in simp_all)

lemma engine_run_rows:
  "i < length (registry eng) \<Longrightarrow>
   i < length (registry (engine_run eng ops)) \<and>
   allowed_change (wr_status (registry eng ! i)) (wr_status (registry (engine_run eng ops) ! i))"
proof (induction ops arbitrary: eng)
  case Nil
  then show ?case by (simp add: allowed_change_refl)
next
  case (Cons x ops)
  obtain now op where x: "x = (now, op)" by (cases x)
  let ?eng1 = "fst (engine_step now eng op)"
  from engine_step_rows [OF Cons.prems, of now op]
  have i1: "i < length (registry ?eng1)"
    and a1: "allowed_change (wr_status (registry eng ! i)) (wr_status (registry ?eng1 ! i))"
    by blast+
  from Cons.IH [OF i1]
  have i2: "i < length (registry (engine_run ?eng1 ops))"
    and a2: "allowed_change (wr_status (registry ?eng1 ! i))
               (wr_status (registry (engine_run ?eng1 ops) ! i))"
    by blast+
  from a1 a2 have "allowed_change (wr_status (registry eng ! i))
      (wr_status (registry (engine_run ?eng1 ops) ! i))"
    by (rule allowed_change_trans)
  with i2 x show ?case by simp
qed

text \<open>
  C7. Over any run of the engine's operations, and over any single operation, a row that
  exists stays in the registry, and its status either stays what it was or goes from
  \<^verbatim>\<open>active\<close> to \<^verbatim>\<open>notified\<close> or from \<^verbatim>\<open>active\<close> to \<^verbatim>\<open>deactivated\<close>: a row that is
  \<^verbatim>\<open>notified\<close> or \<^verbatim>\<open>deactivated\<close> keeps that status for ever and never becomes \<^verbatim>\<open>active\<close>
  again. A row that an operation adds starts \<^verbatim>\<open>active\<close>.
\<close>

theorem C7_watch_status_transitions:
  "(i < length (registry eng) \<longrightarrow>
      i < length (registry (engine_run eng ops)) \<and>
      (wr_status (registry (engine_run eng ops) ! i) = wr_status (registry eng ! i) \<or>
       wr_status (registry eng ! i) = Active \<and>
       (wr_status (registry (engine_run eng ops) ! i) = Notified \<or>
        wr_status (registry (engine_run eng ops) ! i) = Deactivated))) \<and>
   (i < length (registry eng) \<longrightarrow>
      i < length (registry (fst (engine_step now eng op))) \<and>
      (wr_status (registry (fst (engine_step now eng op)) ! i) = wr_status (registry eng ! i) \<or>
       wr_status (registry eng ! i) = Active \<and>
       (wr_status (registry (fst (engine_step now eng op)) ! i) = Notified \<or>
        wr_status (registry (fst (engine_step now eng op)) ! i) = Deactivated))) \<and>
   (length (registry eng) \<le> i \<and> i < length (registry (fst (engine_step now eng op))) \<longrightarrow>
      wr_status (registry (fst (engine_step now eng op)) ! i) = Active)"
  using engine_run_rows [of i eng ops] engine_step_rows [of i eng now op]
    engine_step_new_rows [of eng i now op]
  unfolding allowed_change_iff by blast

text \<open>
  A run for C7 (scenarios A and B of the spec): section S1 opens and S2 vanishes, so the
  first watch is notified and the second deactivated; the same listing replayed changes
  nothing; a new submission for S1 adds a third, active row.
\<close>

theorem C7_watch_status_transitions_witness:
  "(0::nat) < length
     [\<lparr>wr_id = 0, wr_email = ''a@b.c'', wr_term_id = ''2251'', wr_course_code = ''CS101'',
       wr_section_key = ''S1'', wr_status = Active, wr_created_at = 1, wr_notified_at = None\<rparr>,
      \<lparr>wr_id = 1, wr_email = ''a@b.c'', wr_term_id = ''2251'', wr_course_code = ''CS101'',
       wr_section_key = ''S2'', wr_status = Active, wr_created_at = 2, wr_notified_at = None\<rparr>] \<and>
   map wr_status (registry (engine_run
     \<lparr>registry =
        [\<lparr>wr_id = 0, wr_email = ''a@b.c'', wr_term_id = ''2251'', wr_course_code = ''CS101'',
          wr_section_key = ''S1'', wr_status = Active, wr_created_at = 1, wr_notified_at = None\<rparr>,
         \<lparr>wr_id = 1, wr_email = ''a@b.c'', wr_term_id = ''2251'', wr_course_code = ''CS101'',
          wr_section_key = ''S2'', wr_status = Active, wr_created_at = 2, wr_notified_at = None\<rparr>],
      snapshots = [''S1'' \<mapsto> (0, 50, 3), ''S2'' \<mapsto> (0, 40, 3)],
      providerBlocked = False\<rparr>
     [(4, CourseFetched ''2251'' ''CS101''
            [\<lparr>sn_section_key = ''S1'', sn_open_seats = 3, sn_total_seats = 50\<rparr>]),
      (5, CourseFetched ''2251'' ''CS101''
            [\<lparr>sn_section_key = ''S1'', sn_open_seats = 3, sn_total_seats = 50\<rparr>]),
      (6, SubmitWatch ''a@b.c'' ''2251'' ''CS101'' ''S1'')])) =
     [Notified, Deactivated, Active]"
proof -
  let ?eng = "\<lparr>registry =
        [\<lparr>wr_id = 0, wr_email = ''a@b.c'', wr_term_id = ''2251'', wr_course_code = ''CS101'',
          wr_section_key = ''S1'', wr_status = Active, wr_created_at = 1, wr_notified_at = None\<rparr>,
         \<lparr>wr_id = 1, wr_email = ''a@b.c'', wr_term_id = ''2251'', wr_course_code = ''CS101'',
          wr_section_key = ''S2'', wr_status = Active, wr_created_at = 2, wr_notified_at = None\<rparr>],
      snapshots = [''S1'' \<mapsto> (0, 50, 3), ''S2'' \<mapsto> (0, 40, 3)],
      providerBlocked = False\<rparr>"
  let ?ops = "[(4, CourseFetched ''2251'' ''CS101''
            [\<lparr>sn_section_key = ''S1'', sn_open_seats = 3, sn_total_seats = 50\<rparr>]),
      (5, CourseFetched ''2251'' ''CS101''
            [\<lparr>sn_section_key = ''S1'', sn_open_seats = 3, sn_total_seats = 50\<rparr>]),
      (6, SubmitWatch ''a@b.c'' ''2251'' ''CS101'' ''S1'')]"
  have len: "(0::nat) < length (registry ?eng)" by simp
  have ev: "map wr_status (registry (engine_run ?eng ?ops)) = [Notified, Deactivated, Active]"
    by (simp add: Let_def dispatch_row_def opening_transition_def submit_watch_def
        duplicate_active_def)
  from C7_watch_status_transitions [of 0 ?eng ?ops 4 AuthRequired, THEN conjunct1, THEN mp, OF len]
  have "0 < length (registry (engine_run ?eng ?ops))" by (rule conjunct1)
  with ev show ?thesis by simp
qed

end
